theory Spec2Isabelle
  imports Complex_Main "HOL-Library.Char_ord" "HOL-Library.List_Lexorder"
begin

section \<open>Label alignment of labeled arrays (la/flarry.py)\<close>

text \<open>
  The development embeds \<open>align\<close>, \<open>union\<close> and \<open>intersection\<close> of
  \<open>la/flarry.py\<close>. A labeled array (larry) is a numpy buffer \<open>x\<close> together with
  one label list per axis. Buffers are mutable and may be shared, so they live in an
  explicit store; a larry holds the address of its buffer.
\<close>

subsection \<open>Python values, exceptions and list indexing\<close>

datatype error = ValueError | TypeError | IndexError | KeyError | AttributeError

text \<open>
  The element types the source distinguishes (docstring of \<open>align\<close>: float, str and
  object have a missing marker; int and bool have none), and the Python values that
  occur as elements, as fill values and as missing markers.
\<close>

datatype dtype = DInt | DBool | DFloat | DStr | DObject

datatype val =
    VInt int
  | VBool bool
  | VFloat rat
  | VNaN
  | VStr string
  | VNone
  | VNotImplemented

text \<open>Python's \<open>xs[i]\<close>: a negative index counts from the end, out of range raises.\<close>

definition py_getitem :: "'a list \<Rightarrow> int \<Rightarrow> error + 'a" where
  "py_getitem xs i =
     (if 0 \<le> i \<and> i < int (length xs) then Inr (xs ! nat i)
      else if i < 0 \<and> - int (length xs) \<le> i then Inr (xs ! nat (int (length xs) + i))
      else Inl IndexError)"

subsection \<open>numpy buffers in a store\<close>

text \<open>
  An n-dimensional buffer: element type, extents, and the element at each index tuple.
  The store is the list of all buffers allocated so far; an address is a position in
  it, and allocation appends.
\<close>

record ndarray =
  dtype :: dtype
  shape :: "nat list"
  elems :: "nat list \<Rightarrow> val"

type_synonym heap = "ndarray list"

text \<open>\<open>a.copy()\<close>: a new buffer with the same content.\<close>

definition np_copy :: "heap \<Rightarrow> nat \<Rightarrow> nat \<times> heap" where
  "np_copy h p = (length h, h @ [h ! p])"

text \<open>
  \<open>a.take(idx, ax)\<close>: a new buffer whose position \<open>i\<close> along axis \<open>ax\<close> is position
  \<open>idx[i]\<close> of \<open>a\<close>; an index outside the axis raises IndexError.
\<close>

definition take_buf :: "ndarray \<Rightarrow> nat list \<Rightarrow> nat \<Rightarrow> ndarray" where
  "take_buf a idx ax =
     a\<lparr>shape := (shape a)[ax := length idx],
       elems := (\<lambda>i. elems a (i[ax := idx ! (i ! ax)]))\<rparr>"

definition np_take :: "heap \<Rightarrow> nat \<Rightarrow> nat list \<Rightarrow> nat \<Rightarrow> error + (nat \<times> heap)" where
  "np_take h p idx ax =
     (let a = h ! p in
      if list_ex (\<lambda>i. shape a ! ax \<le> i) idx then Inl IndexError
      else Inr (length h, h @ [take_buf a idx ax]))"

text \<open>
  \<open>a[index] = v\<close> with \<open>index = [slice(None)] * ndim\<close> and \<open>index[ax] = pos\<close>:
  the value is converted to the element type of \<open>a\<close> and written, in place, at every
  index tuple whose component \<open>ax\<close> is in \<open>pos\<close>. The conversion is numpy's and not
  part of the repository; it is the parameter \<open>conv\<close>, whose \<open>Inl\<close> results are the
  exceptions numpy raises for a value the element type cannot take. The conversion
  comes before the write, also when \<open>pos\<close> is empty.
\<close>

definition fill_buf :: "ndarray \<Rightarrow> nat \<Rightarrow> nat list \<Rightarrow> val \<Rightarrow> ndarray" where
  "fill_buf a ax pos w = a\<lparr>elems := (\<lambda>i. if i ! ax \<in> set pos then w else elems a i)\<rparr>"

definition np_setitem ::
  "(dtype \<Rightarrow> val \<Rightarrow> error + val) \<Rightarrow> heap \<Rightarrow> nat \<Rightarrow> nat \<Rightarrow> nat list \<Rightarrow> val \<Rightarrow> error + heap" where
  "np_setitem conv h p ax pos v =
     (let a = h ! p in
      case conv (dtype a) v of
        Inl e \<Rightarrow> Inl e
      | Inr w \<Rightarrow> Inr (h[p := fill_buf a ax pos w]))"

subsection \<open>Labeled arrays and the helpers \<open>align\<close> imports\<close>

text \<open>
  A larry: the address of its buffer \<open>x\<close> and its label lists, one per axis.
\<close>

record 'l larry =
  xaddr :: nat
  label :: "'l list list"

text \<open>
  Modelled from the spec: the constructor \<open>larry(x, label)\<close> of la/deflarry.py, which is
  not among the sources (spec: construct(buffer, labelLists) -> LabeledArray, used to
  build both outputs). It keeps the buffer it is given: the spec has every buffer that
  is still a view duplicated before construction, so that outputs never alias.
\<close>

definition larry_new :: "nat \<Rightarrow> 'l list list \<Rightarrow> 'l larry" where
  "larry_new p labs = \<lparr>xaddr = p, label = labs\<rparr>"

text \<open>
  Modelled from the spec: the property \<open>ndim\<close> of la/deflarry.py (the rank of a labeled
  array is the rank of its buffer).
\<close>

definition larry_ndim :: "heap \<Rightarrow> 'l larry \<Rightarrow> nat" where
  "larry_ndim h lar = length (shape (h ! xaddr lar))"

text \<open>
  Modelled from the spec: \<open>missing_marker\<close> of la/missing.py (missingMarker(array) ->
  marker | NOT_SUPPORTED): not-a-number for floating types, the empty string for
  string-typed arrays, a null object for object-typed arrays, and no marker for the
  other element types (integer, boolean), where the source compares the result with
  \<open>NotImplemented\<close>.
\<close>

definition missing_marker :: "heap \<Rightarrow> 'l larry \<Rightarrow> val" where
  "missing_marker h lar =
     (case dtype (h ! xaddr lar) of
        DFloat \<Rightarrow> VNaN
      | DStr \<Rightarrow> VStr []
      | DObject \<Rightarrow> VNone
      | DInt \<Rightarrow> VNotImplemented
      | DBool \<Rightarrow> VNotImplemented)"

text \<open>
  The double nearest to an integer (ties to even): exact up to 53 bits, rounded to 53
  significant bits beyond.
\<close>

fun bitlen :: "nat \<Rightarrow> nat" where
  "bitlen n = (if n = 0 then 0 else Suc (bitlen (n div 2)))"

definition float64_of_int :: "int \<Rightarrow> rat" where
  "float64_of_int i =
     (let m = nat \<bar>i\<bar>;
          e = bitlen m - 53;
          q = m div 2 ^ e;
          r = m mod 2 ^ e;
          q' = (if 2 ^ e < 2 * r \<or> (2 * r = 2 ^ e \<and> odd q) then q + 1 else q)
      in of_int (sgn i * int (q' * 2 ^ e)))"

definition to_float :: "val \<Rightarrow> val" where
  "to_float v =
     (case v of
        VInt i \<Rightarrow> VFloat (float64_of_int i)
      | VBool b \<Rightarrow> VFloat (if b then 1 else 0)
      | _ \<Rightarrow> v)"

text \<open>
  Modelled from the spec: the method \<open>astype\<close> of la/deflarry.py at the one type the
  source passes, \<open>float\<close> (astype(array, targetType) -> array, used when no missing
  marker exists and casting is permitted): a new larry over a new buffer of
  floating type, with the same labels. The source reaches it for buffers without a
  marker only (int, bool); other values are left as they are.
\<close>

definition astype_float :: "heap \<Rightarrow> 'l larry \<Rightarrow> 'l larry \<times> heap" where
  "astype_float h lar =
     (let a = h ! xaddr lar in
      (\<lparr>xaddr = length h, label = label lar\<rparr>,
       h @ [a\<lparr>dtype := DFloat, elems := (\<lambda>i. to_float (elems a i))\<rparr>]))"

text \<open>The position of the first occurrence of \<open>y\<close> (the length when there is none).\<close>

primrec index_of :: "'a list \<Rightarrow> 'a \<Rightarrow> nat" where
  "index_of [] y = 0"
| "index_of (x # xs) y = (if x = y then 0 else Suc (index_of xs y))"

text \<open>
  Modelled from the spec: \<open>listmap\<close> of la/flabel.py (mapPositions(sourceLabels,
  targetLabels) -> indices): entry \<open>i\<close> is the source position that supplies target
  position \<open>i\<close>. The spec gives no result for a target label the source lacks; the
  model raises KeyError there.
\<close>

definition listmap :: "'l list \<Rightarrow> 'l list \<Rightarrow> error + nat list" where
  "listmap list1 list2 =
     (if list_all (\<lambda>l. l \<in> set list1) list2 then Inr (map (index_of list1) list2)
      else Inl KeyError)"

text \<open>
  Modelled from the spec: \<open>listmap_fill\<close> of la/flabel.py (mapPositionsWithFill(
  sourceLabels, targetLabels, placeholder) -> (indices, missingPositions)): as
  \<open>listmap\<close>, with the placeholder as the index of every target position that has no
  counterpart in the source, and the list of those target positions.
\<close>

definition listmap_fill :: "'l list \<Rightarrow> 'l list \<Rightarrow> nat \<Rightarrow> nat list \<times> nat list" where
  "listmap_fill list1 list2 fill =
     (map (\<lambda>l. if l \<in> set list1 then index_of list1 l else fill) list2,
      filter (\<lambda>i. list2 ! i \<notin> set list1) [0..<length list2])"

subsection \<open>\<open>align\<close>\<close>

text \<open>
  The argument \<open>join\<close>: a string, a list (of strings), or a value of another type.
\<close>

datatype joinspec = JoinStr string | JoinList "string list" | JoinOther

text \<open>The block "Check join type": one join method per axis.\<close>

definition check_join :: "joinspec \<Rightarrow> nat \<Rightarrow> error + string list" where
  "check_join join ndim =
     (case join of
        JoinStr s \<Rightarrow> Inr (replicate ndim s)
      | JoinList js \<Rightarrow> if length js \<noteq> ndim then Inl ValueError else Inr js
      | JoinOther \<Rightarrow> Inl TypeError)"

text \<open>
  The block "Find missing markers". The default of the parameter \<open>fill\<close> is the string
  \<open>'default'\<close>, and the test is \<open>fill == 'default'\<close>. The result is the two (possibly
  cast) larrys, the two markers and the store.
\<close>

definition find_missing_markers ::
  "heap \<Rightarrow> 'l larry \<Rightarrow> 'l larry \<Rightarrow> val \<Rightarrow> bool \<Rightarrow> ('l larry \<times> 'l larry \<times> val \<times> val) \<times> heap" where
  "find_missing_markers h lar1 lar2 fill cast =
     (if fill = VStr ''default'' then
        let miss1 = missing_marker h lar1;
            miss2 = missing_marker h lar2;
            (lar1', miss1', h1) =
              (if miss1 = VNotImplemented \<and> cast
               then (let (l, h') = astype_float h lar1 in (l, missing_marker h' l, h'))
               else (lar1, miss1, h));
            (lar2', miss2', h2) =
              (if miss2 = VNotImplemented \<and> cast
               then (let (l, h') = astype_float h1 lar2 in (l, missing_marker h' l, h'))
               else (lar2, miss2, h1))
        in ((lar1', lar2', miss1', miss2'), h2)
      else ((lar1, lar2, fill, fill), h))"

text \<open>The variables of the loop over the axes.\<close>

record 'l align_vars =
  var_label :: "'l list list"
  var_x1 :: nat
  var_x2 :: nat
  var_x1isview :: bool
  var_x2isview :: bool
  var_heap :: heap

text \<open>
  The body of the loop "align one axis at a time", for axis \<open>ax\<close>. The handler
  \<open>except TypeError: raise TypeError, msg\<close> replaces a TypeError by a TypeError, and
  every other exception passes through it: the error value is unchanged.
\<close>

definition align_axis ::
  "(dtype \<Rightarrow> val \<Rightarrow> error + val) \<Rightarrow> 'l::linorder list list \<Rightarrow> 'l list list \<Rightarrow> string list \<Rightarrow>
   val \<Rightarrow> val \<Rightarrow> 'l align_vars \<Rightarrow> nat \<Rightarrow> error + 'l align_vars" where
  "align_axis conv label1 label2 join miss1 miss2 v ax =
     (case py_getitem label1 (int ax) of Inl e \<Rightarrow> Inl e | Inr list1 \<Rightarrow>
     (case py_getitem label2 (int ax) of Inl e \<Rightarrow> Inl e | Inr list2 \<Rightarrow>
     (case py_getitem join (int ax) of Inl e \<Rightarrow> Inl e | Inr joinax \<Rightarrow>
      if joinax = ''inner'' then
        if list1 = list2 then Inr (v\<lparr>var_label := var_label v @ [list1]\<rparr>)
        else
          let list3 = sorted_list_of_set (set list1 \<inter> set list2) in
          (case listmap list1 list3 of Inl e \<Rightarrow> Inl e | Inr idx1 \<Rightarrow>
          (case listmap list2 list3 of Inl e \<Rightarrow> Inl e | Inr idx2 \<Rightarrow>
          (case np_take (var_heap v) (var_x1 v) idx1 ax of Inl e \<Rightarrow> Inl e | Inr (x1, h1) \<Rightarrow>
          (case np_take h1 (var_x2 v) idx2 ax of Inl e \<Rightarrow> Inl e | Inr (x2, h2) \<Rightarrow>
           Inr (v\<lparr>var_label := var_label v @ [list3], var_x1 := x1, var_x2 := x2,
                  var_x1isview := False, var_x2isview := False, var_heap := h2\<rparr>)))))
      else if joinax = ''outer'' then
        if list1 = list2 then Inr (v\<lparr>var_label := var_label v @ [list1]\<rparr>)
        else
          let list3 = sorted_list_of_set (set list1 \<union> set list2);
              (idx1, idx1_miss) = listmap_fill list1 list3 0;
              (idx2, idx2_miss) = listmap_fill list2 list3 0 in
          (case np_take (var_heap v) (var_x1 v) idx1 ax of Inl e \<Rightarrow> Inl e | Inr (x1, h1) \<Rightarrow>
          (case np_take h1 (var_x2 v) idx2 ax of Inl e \<Rightarrow> Inl e | Inr (x2, h2) \<Rightarrow>
          (case np_setitem conv h2 x1 ax idx1_miss miss1 of Inl e \<Rightarrow> Inl e | Inr h3 \<Rightarrow>
          (case np_setitem conv h3 x2 ax idx2_miss miss2 of Inl e \<Rightarrow> Inl e | Inr h4 \<Rightarrow>
           Inr (v\<lparr>var_label := var_label v @ [list3], var_x1 := x1, var_x2 := x2,
                  var_x1isview := False, var_x2isview := False, var_heap := h4\<rparr>)))))
      else if joinax = ''left'' then
        if list1 \<noteq> list2 then
          let (idx2, idx2_miss) = listmap_fill list2 list1 0 in
          (case np_take (var_heap v) (var_x2 v) idx2 ax of Inl e \<Rightarrow> Inl e | Inr (x2, h1) \<Rightarrow>
          (case np_setitem conv h1 x2 ax idx2_miss miss2 of Inl e \<Rightarrow> Inl e | Inr h2 \<Rightarrow>
           Inr (v\<lparr>var_label := var_label v @ [list1], var_x2 := x2,
                  var_x2isview := False, var_heap := h2\<rparr>)))
        else Inr (v\<lparr>var_label := var_label v @ [list1]\<rparr>)
      else if joinax = ''right'' then
        if list1 \<noteq> list2 then
          let (idx1, idx1_miss) = listmap_fill list1 list2 0 in
          (case np_take (var_heap v) (var_x1 v) idx1 ax of Inl e \<Rightarrow> Inl e | Inr (x1, h1) \<Rightarrow>
          (case np_setitem conv h1 x1 ax idx1_miss miss1 of Inl e \<Rightarrow> Inl e | Inr h2 \<Rightarrow>
           Inr (v\<lparr>var_label := var_label v @ [list2], var_x1 := x1,
                  var_x1isview := False, var_heap := h2\<rparr>)))
        else Inr (v\<lparr>var_label := var_label v @ [list2]\<rparr>)
      else Inl ValueError)))"

text \<open>The loop \<open>for ax in range(ndim)\<close>, over the list of the axes left to do.\<close>

fun align_loop ::
  "(dtype \<Rightarrow> val \<Rightarrow> error + val) \<Rightarrow> 'l::linorder list list \<Rightarrow> 'l list list \<Rightarrow> string list \<Rightarrow>
   val \<Rightarrow> val \<Rightarrow> nat list \<Rightarrow> 'l align_vars \<Rightarrow> error + 'l align_vars" where
  "align_loop conv label1 label2 join miss1 miss2 [] v = Inr v"
| "align_loop conv label1 label2 join miss1 miss2 (ax # axs) v =
     (case align_axis conv label1 label2 join miss1 miss2 v ax of
        Inl e \<Rightarrow> Inl e
      | Inr v' \<Rightarrow> align_loop conv label1 label2 join miss1 miss2 axs v')"

text \<open>
  \<open>align(lar1, lar2, join='inner', fill='default', cast=True)\<close>, on the store \<open>h\<close>:
  an exception, or the two aligned larrys and the store after the call.
\<close>

definition align ::
  "(dtype \<Rightarrow> val \<Rightarrow> error + val) \<Rightarrow> heap \<Rightarrow> 'l::linorder larry \<Rightarrow> 'l larry \<Rightarrow> joinspec \<Rightarrow> val \<Rightarrow> bool \<Rightarrow>
   error + (('l larry \<times> 'l larry) \<times> heap)" where
  "align conv h lar1 lar2 join fill cast =
     (let ndim = larry_ndim h lar2 in
      if larry_ndim h lar1 \<noteq> ndim then Inl ValueError
      else
       (case check_join join ndim of Inl e \<Rightarrow> Inl e | Inr js \<Rightarrow>
       (case find_missing_markers h lar1 lar2 fill cast of ((lar1', lar2', miss1, miss2), h1) \<Rightarrow>
       (case align_loop conv (label lar1') (label lar2') js miss1 miss2 [0..<ndim]
               \<lparr>var_label = [], var_x1 = xaddr lar1', var_x2 = xaddr lar2',
                var_x1isview = True, var_x2isview = True, var_heap = h1\<rparr> of
          Inl e \<Rightarrow> Inl e
        | Inr v \<Rightarrow>
            let (x1, h2) = (if var_x1isview v then np_copy (var_heap v) (var_x1 v)
                            else (var_x1 v, var_heap v));
                lar3 = larry_new x1 (var_label v);
                lab = map (\<lambda>l. l) (var_label v);
                (x2, h3) = (if var_x2isview v then np_copy h2 (var_x2 v) else (var_x2 v, h2));
                lar4 = larry_new x2 lab
            in Inr ((lar3, lar4), h3)))))"

subsection \<open>\<open>union\<close> and \<open>intersection\<close>\<close>

text \<open>
  An argument of \<open>union\<close> or \<open>intersection\<close>: a larry, or an object of another class,
  which may or may not have an attribute \<open>label\<close>.
\<close>

datatype 'l pyobj = Larry "'l larry" | NotLarry "'l list list option"

text \<open>The loop of \<open>union\<close> over its arguments, from the set \<open>rc\<close> gathered so far.\<close>

fun union_loop :: "int \<Rightarrow> 'l pyobj list \<Rightarrow> 'l set \<Rightarrow> error + 'l set" where
  "union_loop axis [] rc = Inr rc"
| "union_loop axis (arg # args) rc =
     (case arg of
        Larry lar \<Rightarrow>
          (case py_getitem (label lar) axis of
             Inl e \<Rightarrow> Inl e
           | Inr labs \<Rightarrow> union_loop axis args (set labs \<union> rc))
      | NotLarry _ \<Rightarrow> Inl TypeError)"

definition union_la :: "int \<Rightarrow> 'l::linorder pyobj list \<Rightarrow> error + 'l list" where
  "union_la axis args =
     (case union_loop axis args {} of
        Inl e \<Rightarrow> Inl e
      | Inr rc \<Rightarrow> Inr (sorted_list_of_set rc))"

text \<open>\<open>arg.label\<close>: the attribute of a larry, or of another object that has one.\<close>

definition getattr_label :: "'l pyobj \<Rightarrow> error + 'l list list" where
  "getattr_label arg =
     (case arg of
        Larry lar \<Rightarrow> Inr (label lar)
      | NotLarry None \<Rightarrow> Inl AttributeError
      | NotLarry (Some labs) \<Rightarrow> Inr labs)"

text \<open>The loop of \<open>intersection\<close> over \<open>args[1:]\<close>.\<close>

fun intersection_loop :: "int \<Rightarrow> 'l pyobj list \<Rightarrow> 'l set \<Rightarrow> error + 'l set" where
  "intersection_loop axis [] rc = Inr rc"
| "intersection_loop axis (arg # args) rc =
     (case arg of
        Larry lar \<Rightarrow>
          (case py_getitem (label lar) axis of
             Inl e \<Rightarrow> Inl e
           | Inr labs \<Rightarrow> intersection_loop axis args (set labs \<inter> rc))
      | NotLarry _ \<Rightarrow> Inl TypeError)"

definition intersection :: "int \<Rightarrow> 'l::linorder pyobj list \<Rightarrow> error + 'l list" where
  "intersection axis args =
     (case py_getitem args 0 of Inl e \<Rightarrow> Inl e | Inr arg0 \<Rightarrow>
     (case getattr_label arg0 of Inl e \<Rightarrow> Inl e | Inr lab0 \<Rightarrow>
     (case py_getitem lab0 axis of Inl e \<Rightarrow> Inl e | Inr labs0 \<Rightarrow>
     (case intersection_loop axis (tl args) (set labs0) of
        Inl e \<Rightarrow> Inl e
      | Inr rc \<Rightarrow> Inr (sorted_list_of_set rc)))))"

subsection \<open>Calls, results and the label list of an axis\<close>


text \<open>The parts of what a call of \<open>align\<close> returns.\<close>

definition lar3_of :: "error + (('l larry \<times> 'l larry) \<times> heap) \<Rightarrow> 'l larry" where
  "lar3_of r = fst (fst (projr r))"

definition lar4_of :: "error + (('l larry \<times> 'l larry) \<times> heap) \<Rightarrow> 'l larry" where
  "lar4_of r = snd (fst (projr r))"

definition heap_of :: "error + (('l larry \<times> 'l larry) \<times> heap) \<Rightarrow> heap" where
  "heap_of r = snd (projr r)"

text \<open>
  The label list \<open>list3\<close> that the body of the loop appends for an axis, by join
  method (for a method that the body accepts).
\<close>

definition list3_of :: "string \<Rightarrow> 'l::linorder list \<Rightarrow> 'l list \<Rightarrow> 'l list" where
  "list3_of joinax list1 list2 =
     (if joinax = ''inner'' then
        (if list1 = list2 then list1 else sorted_list_of_set (set list1 \<inter> set list2))
      else if joinax = ''outer'' then
        (if list1 = list2 then list1 else sorted_list_of_set (set list1 \<union> set list2))
      else if joinax = ''left'' then list1
      else list2)"

definition recognized :: "string \<Rightarrow> bool" where
  "recognized joinax =
     (joinax = ''inner'' \<or> joinax = ''outer'' \<or> joinax = ''left'' \<or> joinax = ''right'')"

subsection \<open>Example inputs\<close>

text \<open>A one-dimensional buffer with the given elements (\<open>np.array([...])\<close>).\<close>

definition np_array1 :: "dtype \<Rightarrow> val list \<Rightarrow> ndarray" where
  "np_array1 dt vs = \<lparr>dtype = dt, shape = [length vs], elems = (\<lambda>i. vs ! (i ! 0))\<rparr>"

text \<open>
  An instance of the conversion parameter for the examples: a value of the buffer's own
  element type is stored as it is, an object buffer takes every value, and any other
  assignment is refused with TypeError (as numpy refuses \<open>NotImplemented\<close> for an
  integer buffer; numpy itself converts more, for instance an int for a float buffer).
\<close>

definition conv_same :: "dtype \<Rightarrow> val \<Rightarrow> error + val" where
  "conv_same dt v =
     (case (dt, v) of
        (DObject, _) \<Rightarrow> Inr v
      | (DFloat, VFloat r) \<Rightarrow> Inr v
      | (DFloat, VNaN) \<Rightarrow> Inr v
      | (DStr, VStr s) \<Rightarrow> Inr v
      | (DInt, VInt i) \<Rightarrow> Inr v
      | (DBool, VBool b) \<Rightarrow> Inr v
      | _ \<Rightarrow> Inl TypeError)"

text \<open>
  The larrys of the docstring of \<open>align\<close>:
  \<open>lar1 = larry([1, 2, nan], [['a', 'b', 'c']])\<close> and
  \<open>lar2 = larry([1, nan, nan], [['a', 'b', 'dd']])\<close>.
\<close>

definition doc_heap :: heap where
  "doc_heap =
     [np_array1 DFloat [VFloat 1, VFloat 2, VNaN], np_array1 DFloat [VFloat 1, VNaN, VNaN]]"

definition doc_lar1 :: "string larry" where
  "doc_lar1 = \<lparr>xaddr = 0, label = [[''a'', ''b'', ''c'']]\<rparr>"

definition doc_lar2 :: "string larry" where
  "doc_lar2 = \<lparr>xaddr = 1, label = [[''a'', ''b'', ''dd'']]\<rparr>"

text \<open>
  Two float larrys with the same label list, which is not in ascending order:
  \<open>larry([1, 2], [['b', 'a']])\<close> and \<open>larry([3, 4], [['b', 'a']])\<close>.
\<close>

definition ba_heap :: heap where
  "ba_heap = [np_array1 DFloat [VFloat 1, VFloat 2], np_array1 DFloat [VFloat 3, VFloat 4]]"

definition ba_lar1 :: "string larry" where
  "ba_lar1 = \<lparr>xaddr = 0, label = [[''b'', ''a'']]\<rparr>"

definition ba_lar2 :: "string larry" where
  "ba_lar2 = \<lparr>xaddr = 1, label = [[''b'', ''a'']]\<rparr>"

text \<open>An integer larry: \<open>larry([9007199254740993], [['a']])\<close> (the element is 2^53 + 1).\<close>

definition int_heap :: heap where
  "int_heap = [np_array1 DInt [VInt 9007199254740993]]"

definition int_lar :: "string larry" where
  "int_lar = \<lparr>xaddr = 0, label = [[''a'']]\<rparr>"

text \<open>
  The larrys of the docstrings of \<open>union\<close> and \<open>intersection\<close>, of which only the labels
  matter: \<open>y1 = larry([[1, 2], [3, 4]], [['a', 'b'], ['c', 'd']])\<close> and
  \<open>y2 = larry([[1, 2], [3, 4]], [['e', 'b'], ['f', 'd']])\<close>.
\<close>

definition doc_y1 :: "string larry" where
  "doc_y1 = \<lparr>xaddr = 0, label = [[''a'', ''b''], [''c'', ''d'']]\<rparr>"

definition doc_y2 :: "string larry" where
  "doc_y2 = \<lparr>xaddr = 1, label = [[''e'', ''b''], [''f'', ''d'']]\<rparr>"

text \<open>
  Two integer larrys with different labels: \<open>larry([1, 2], [['a', 'b']])\<close> and
  \<open>larry([3, 4], [['b', 'c']])\<close>.
\<close>

definition ints_heap :: heap where
  "ints_heap = [np_array1 DInt [VInt 1, VInt 2], np_array1 DInt [VInt 3, VInt 4]]"

definition ints_lar1 :: "string larry" where
  "ints_lar1 = \<lparr>xaddr = 0, label = [[''a'', ''b'']]\<rparr>"

definition ints_lar2 :: "string larry" where
  "ints_lar2 = \<lparr>xaddr = 1, label = [[''b'', ''c'']]\<rparr>"


section \<open>Properties\<close>

subsection \<open>The loop body and the loop\<close>

lemma py_getitem_nat:
  "py_getitem xs (int n) = (if n < length xs then Inr (xs ! n) else Inl IndexError)"
  by (simp add: py_getitem_def)

lemma align_axis_label:
  assumes "align_axis conv label1 label2 js miss1 miss2 v ax = Inr v'"
  shows "ax < length label1 \<and> ax < length label2 \<and> ax < length js \<and> recognized (js ! ax) \<and>
         var_label v' = var_label v @ [list3_of (js ! ax) (label1 ! ax) (label2 ! ax)]"
  using assms
  by (auto simp: align_axis_def py_getitem_nat list3_of_def recognized_def Let_def
           split: if_splits sum.splits prod.splits)

lemma align_loop_label:
  "align_loop conv label1 label2 js miss1 miss2 axs v = Inr v' \<Longrightarrow>
   var_label v' = var_label v @ map (\<lambda>ax. list3_of (js ! ax) (label1 ! ax) (label2 ! ax)) axs \<and>
   list_all (\<lambda>ax. ax < length label1 \<and> ax < length label2 \<and> ax < length js \<and> recognized (js ! ax)) axs"
proof (induction axs arbitrary: v)
  case Nil
  then show ?case by simp
next
  case (Cons ax axs)
  from Cons.prems obtain u where
    u: "align_axis conv label1 label2 js miss1 miss2 v ax = Inr u"
    and r: "align_loop conv label1 label2 js miss1 miss2 axs u = Inr v'"
    by (auto split: sum.splits)
  from align_axis_label[OF u] Cons.IH[OF r] show ?case by simp
qed

lemma align_loop_append:
  "align_loop conv label1 label2 js miss1 miss2 (xs @ ys) v =
     (case align_loop conv label1 label2 js miss1 miss2 xs v of
        Inl e \<Rightarrow> Inl e
      | Inr u \<Rightarrow> align_loop conv label1 label2 js miss1 miss2 ys u)"
  by (induction xs arbitrary: v) (auto split: sum.splits)

lemma find_missing_markers_label:
  assumes "find_missing_markers h lar1 lar2 fill cast = ((lar1', lar2', miss1, miss2), h1)"
  shows "label lar1' = label lar1 \<and> label lar2' = label lar2"
  using assms
  by (auto simp: find_missing_markers_def astype_float_def Let_def split: if_splits prod.splits)

lemma align_elim:
  assumes "align conv h lar1 lar2 join fill cast = Inr ((lar3, lar4), h')"
  obtains js lar1' lar2' miss1 miss2 h1 v where
    "larry_ndim h lar1 = larry_ndim h lar2"
    "check_join join (larry_ndim h lar2) = Inr js"
    "find_missing_markers h lar1 lar2 fill cast = ((lar1', lar2', miss1, miss2), h1)"
    "align_loop conv (label lar1') (label lar2') js miss1 miss2 [0..<larry_ndim h lar2]
       \<lparr>var_label = [], var_x1 = xaddr lar1', var_x2 = xaddr lar2',
        var_x1isview = True, var_x2isview = True, var_heap = h1\<rparr> = Inr v"
    "lar3 = \<lparr>xaddr = (if var_x1isview v then length (var_heap v) else var_x1 v), label = var_label v\<rparr>"
    "lar4 = \<lparr>xaddr = (if var_x2isview v
                       then length (var_heap v) + (if var_x1isview v then 1 else 0)
                       else var_x2 v),
             label = var_label v\<rparr>"
    "h' = var_heap v @ (if var_x1isview v then [var_heap v ! var_x1 v] else [])
                    @ (if var_x2isview v
                       then [(var_heap v @ (if var_x1isview v then [var_heap v ! var_x1 v] else [])) ! var_x2 v]
                       else [])"
  using assms
  by (auto simp: align_def Let_def np_copy_def larry_new_def split: if_splits sum.splits prod.splits)

lemma np_take_Inr:
  "np_take h p idx ax = Inr (q, h') \<Longrightarrow> q = length h \<and> h' = h @ [take_buf (h ! p) idx ax]"
  by (auto simp: np_take_def Let_def split: if_splits)

lemma np_setitem_Inr:
  "np_setitem conv h p ax pos v = Inr h' \<Longrightarrow>
   \<exists>w. conv (dtype (h ! p)) v = Inr w \<and> h' = h[p := fill_buf (h ! p) ax pos w]"
  by (auto simp: np_setitem_def Let_def split: sum.splits)

lemma dtype_take_buf [simp]: "dtype (take_buf a idx ax) = dtype a"
  by (simp add: take_buf_def)

lemma dtype_fill_buf [simp]: "dtype (fill_buf a ax pos w) = dtype a"
  by (simp add: fill_buf_def)

lemma align_axis_cases [consumes 3, case_names same inner outer left right]:
  assumes step: "align_axis conv label1 label2 js miss1 miss2 v ax = Inr v'"
    and x1: "var_x1 v < length (var_heap v)"
    and x2: "var_x2 v < length (var_heap v)"
  obtains
    (same) "label1 ! ax = label2 ! ax"
      "v' = v\<lparr>var_label := var_label v @ [label1 ! ax]\<rparr>"
  | (inner) idx1 idx2 list3 where
      "js ! ax = ''inner''" "label1 ! ax \<noteq> label2 ! ax"
      "v' = v\<lparr>var_label := var_label v @ [list3],
              var_x1 := length (var_heap v), var_x2 := Suc (length (var_heap v)),
              var_x1isview := False, var_x2isview := False,
              var_heap := var_heap v @
                [take_buf (var_heap v ! var_x1 v) idx1 ax,
                 take_buf (var_heap v ! var_x2 v) idx2 ax]\<rparr>"
  | (outer) w1 w2 list3 where
      "js ! ax = ''outer''" "label1 ! ax \<noteq> label2 ! ax"
      "list3 = sorted_list_of_set (set (label1 ! ax) \<union> set (label2 ! ax))"
      "conv (dtype (var_heap v ! var_x1 v)) miss1 = Inr w1"
      "conv (dtype (var_heap v ! var_x2 v)) miss2 = Inr w2"
      "v' = v\<lparr>var_label := var_label v @ [list3],
              var_x1 := length (var_heap v), var_x2 := Suc (length (var_heap v)),
              var_x1isview := False, var_x2isview := False,
              var_heap := var_heap v @
                [fill_buf (take_buf (var_heap v ! var_x1 v)
                     (fst (listmap_fill (label1 ! ax) list3 0)) ax) ax
                   (snd (listmap_fill (label1 ! ax) list3 0)) w1,
                 fill_buf (take_buf (var_heap v ! var_x2 v)
                     (fst (listmap_fill (label2 ! ax) list3 0)) ax) ax
                   (snd (listmap_fill (label2 ! ax) list3 0)) w2]\<rparr>"
  | (left) w2 where
      "js ! ax = ''left''" "label1 ! ax \<noteq> label2 ! ax"
      "conv (dtype (var_heap v ! var_x2 v)) miss2 = Inr w2"
      "v' = v\<lparr>var_label := var_label v @ [label1 ! ax],
              var_x2 := length (var_heap v), var_x2isview := False,
              var_heap := var_heap v @
                [fill_buf (take_buf (var_heap v ! var_x2 v)
                     (fst (listmap_fill (label2 ! ax) (label1 ! ax) 0)) ax) ax
                   (snd (listmap_fill (label2 ! ax) (label1 ! ax) 0)) w2]\<rparr>"
  | (right) w1 where
      "js ! ax = ''right''" "label1 ! ax \<noteq> label2 ! ax"
      "conv (dtype (var_heap v ! var_x1 v)) miss1 = Inr w1"
      "v' = v\<lparr>var_label := var_label v @ [label2 ! ax],
              var_x1 := length (var_heap v), var_x1isview := False,
              var_heap := var_heap v @
                [fill_buf (take_buf (var_heap v ! var_x1 v)
                     (fst (listmap_fill (label1 ! ax) (label2 ! ax) 0)) ax) ax
                   (snd (listmap_fill (label1 ! ax) (label2 ! ax) 0)) w1]\<rparr>"
proof -
  from step have ax: "ax < length label1" "ax < length label2" "ax < length js"
    by (auto simp: align_axis_def py_getitem_nat split: if_splits sum.splits)
  let ?l1 = "label1 ! ax" and ?l2 = "label2 ! ax" and ?j = "js ! ax"
  show thesis
  proof (cases "?l1 = ?l2")
    case True
    with step ax have "v' = v\<lparr>var_label := var_label v @ [?l1]\<rparr>"
      by (auto simp: align_axis_def py_getitem_nat split: if_splits)
    with True show thesis by (rule same)
  next
    case ne: False
    consider (i) "?j = ''inner''" | (o) "?j = ''outer''" | (l) "?j = ''left''" | (r) "?j = ''right''"
      using step ax by (auto simp: align_axis_def py_getitem_nat split: if_splits)
    then show thesis
    proof cases
      case i
      from step ax ne x1 x2 i obtain idx1 idx2 list3 where
        "v' = v\<lparr>var_label := var_label v @ [list3],
              var_x1 := length (var_heap v), var_x2 := Suc (length (var_heap v)),
              var_x1isview := False, var_x2isview := False,
              var_heap := var_heap v @
                [take_buf (var_heap v ! var_x1 v) idx1 ax,
                 take_buf (var_heap v ! var_x2 v) idx2 ax]\<rparr>"
        by (auto simp: align_axis_def py_getitem_nat Let_def nth_append list_update_append
                 dest!: np_take_Inr split: sum.splits prod.splits)
      with i ne show thesis by (rule inner)
    next
      case o
      let ?L = "sorted_list_of_set (set ?l1 \<union> set ?l2)"
      from step ax ne x1 x2 o obtain w1 w2 where
        "conv (dtype (var_heap v ! var_x1 v)) miss1 = Inr w1"
        "conv (dtype (var_heap v ! var_x2 v)) miss2 = Inr w2"
        "v' = v\<lparr>var_label := var_label v @ [?L],
              var_x1 := length (var_heap v), var_x2 := Suc (length (var_heap v)),
              var_x1isview := False, var_x2isview := False,
              var_heap := var_heap v @
                [fill_buf (take_buf (var_heap v ! var_x1 v)
                     (fst (listmap_fill ?l1 ?L 0)) ax) ax
                   (snd (listmap_fill ?l1 ?L 0)) w1,
                 fill_buf (take_buf (var_heap v ! var_x2 v)
                     (fst (listmap_fill ?l2 ?L 0)) ax) ax
                   (snd (listmap_fill ?l2 ?L 0)) w2]\<rparr>"
        by (auto simp: align_axis_def py_getitem_nat Let_def nth_append list_update_append
                 dest!: np_take_Inr np_setitem_Inr split: sum.splits prod.splits)
      with o ne show thesis by (intro outer[where ?list3.0 = ?L]) auto
    next
      case l
      from step ax ne x1 x2 l obtain w2 where
        "conv (dtype (var_heap v ! var_x2 v)) miss2 = Inr w2"
        "v' = v\<lparr>var_label := var_label v @ [?l1],
              var_x2 := length (var_heap v), var_x2isview := False,
              var_heap := var_heap v @
                [fill_buf (take_buf (var_heap v ! var_x2 v)
                     (fst (listmap_fill ?l2 ?l1 0)) ax) ax
                   (snd (listmap_fill ?l2 ?l1 0)) w2]\<rparr>"
        by (auto simp: align_axis_def py_getitem_nat Let_def nth_append list_update_append
                 dest!: np_take_Inr np_setitem_Inr split: sum.splits prod.splits)
      with l ne show thesis by (rule left)
    next
      case r
      from step ax ne x1 x2 r obtain w1 where
        "conv (dtype (var_heap v ! var_x1 v)) miss1 = Inr w1"
        "v' = v\<lparr>var_label := var_label v @ [?l2],
              var_x1 := length (var_heap v), var_x1isview := False,
              var_heap := var_heap v @
                [fill_buf (take_buf (var_heap v ! var_x1 v)
                     (fst (listmap_fill ?l1 ?l2 0)) ax) ax
                   (snd (listmap_fill ?l1 ?l2 0)) w1]\<rparr>"
        by (auto simp: align_axis_def py_getitem_nat Let_def nth_append list_update_append
                 dest!: np_take_Inr np_setitem_Inr split: sum.splits prod.splits)
      with r ne show thesis by (rule right)
    qed
  qed
qed

subsection \<open>The store: what the loop allocates and what it leaves alone\<close>

lemma find_missing_markers_frame:
  assumes "find_missing_markers h lar1 lar2 fill cast = ((lar1', lar2', miss1, miss2), h1)"
    and "xaddr lar1 < length h" and "xaddr lar2 < length h"
  shows "length h \<le> length h1 \<and> take (length h) h1 = h \<and>
         xaddr lar1' < length h1 \<and> xaddr lar2' < length h1 \<and>
         shape (h1 ! xaddr lar1') = shape (h ! xaddr lar1) \<and>
         shape (h1 ! xaddr lar2') = shape (h ! xaddr lar2)"
  using assms
  by (auto simp: find_missing_markers_def astype_float_def Let_def nth_append
           split: if_splits prod.splits)

lemma align_axis_frame:
  assumes step: "align_axis conv label1 label2 js miss1 miss2 v ax = Inr v'"
    and x1: "var_x1 v < length (var_heap v)"
    and x2: "var_x2 v < length (var_heap v)"
    and n: "n \<le> length (var_heap v)"
    and v1: "\<not> var_x1isview v \<longrightarrow> n \<le> var_x1 v"
    and v2: "\<not> var_x2isview v \<longrightarrow> n \<le> var_x2 v"
    and ne: "\<not> var_x1isview v \<and> \<not> var_x2isview v \<longrightarrow> var_x1 v \<noteq> var_x2 v"
  shows "var_x1 v' < length (var_heap v') \<and> var_x2 v' < length (var_heap v') \<and>
         length (var_heap v) \<le> length (var_heap v') \<and>
         take (length (var_heap v)) (var_heap v') = var_heap v \<and>
         (\<not> var_x1isview v' \<longrightarrow> n \<le> var_x1 v') \<and>
         (\<not> var_x2isview v' \<longrightarrow> n \<le> var_x2 v') \<and>
         (\<not> var_x1isview v' \<and> \<not> var_x2isview v' \<longrightarrow> var_x1 v' \<noteq> var_x2 v')"
  using step x1 x2
proof (cases rule: align_axis_cases)
  case same
  with x1 x2 n v1 v2 ne show ?thesis by simp
next
  case (inner idx1 idx2 list3)
  with x1 x2 n v1 v2 ne show ?thesis by simp
next
  case (outer w1 w2 list3)
  with x1 x2 n v1 v2 ne show ?thesis by simp
next
  case (left w2)
  with x1 x2 n v1 v2 ne show ?thesis by auto
next
  case (right w1)
  with x1 x2 n v1 v2 ne show ?thesis by auto
qed

lemma align_loop_frame:
  "align_loop conv label1 label2 js miss1 miss2 axs v = Inr v' \<Longrightarrow>
   var_x1 v < length (var_heap v) \<Longrightarrow> var_x2 v < length (var_heap v) \<Longrightarrow>
   n \<le> length (var_heap v) \<Longrightarrow>
   (\<not> var_x1isview v \<longrightarrow> n \<le> var_x1 v) \<Longrightarrow>
   (\<not> var_x2isview v \<longrightarrow> n \<le> var_x2 v) \<Longrightarrow>
   (\<not> var_x1isview v \<and> \<not> var_x2isview v \<longrightarrow> var_x1 v \<noteq> var_x2 v) \<Longrightarrow>
   var_x1 v' < length (var_heap v') \<and> var_x2 v' < length (var_heap v') \<and>
   length (var_heap v) \<le> length (var_heap v') \<and>
   take (length (var_heap v)) (var_heap v') = var_heap v \<and>
   (\<not> var_x1isview v' \<longrightarrow> n \<le> var_x1 v') \<and>
   (\<not> var_x2isview v' \<longrightarrow> n \<le> var_x2 v') \<and>
   (\<not> var_x1isview v' \<and> \<not> var_x2isview v' \<longrightarrow> var_x1 v' \<noteq> var_x2 v')"
proof (induction axs arbitrary: v)
  case Nil
  then show ?case by simp
next
  case (Cons ax axs)
  from Cons.prems(1) obtain u where
    u: "align_axis conv label1 label2 js miss1 miss2 v ax = Inr u"
    and r: "align_loop conv label1 label2 js miss1 miss2 axs u = Inr v'"
    by (auto split: sum.splits)
  note f = align_axis_frame[OF u Cons.prems(2-7)]
  from f have n': "n \<le> length (var_heap u)" using Cons.prems(4) by linarith
  have g: "var_x1 v' < length (var_heap v') \<and> var_x2 v' < length (var_heap v') \<and>
     length (var_heap u) \<le> length (var_heap v') \<and>
     take (length (var_heap u)) (var_heap v') = var_heap u \<and>
     (\<not> var_x1isview v' \<longrightarrow> n \<le> var_x1 v') \<and>
     (\<not> var_x2isview v' \<longrightarrow> n \<le> var_x2 v') \<and>
     (\<not> var_x1isview v' \<and> \<not> var_x2isview v' \<longrightarrow> var_x1 v' \<noteq> var_x2 v')"
    using f n' by (intro Cons.IH[OF r]) auto
  have "take (length (var_heap v)) (var_heap v') =
        take (length (var_heap v)) (take (length (var_heap u)) (var_heap v'))"
    using f by (simp add: min_def)
  also have "\<dots> = var_heap v" using f g by simp
  finally show ?case using f g by auto
qed

lemma take_nth_eq: "take n ys = xs \<Longrightarrow> p < length xs \<Longrightarrow> ys ! p = xs ! p"
  by (metis length_take min_less_iff_conj nth_take)

text \<open>
  Claim C6. When \<open>align\<close> returns, every buffer that was in the store before the call
  is unchanged (the store after the call starts with the store before it), so the
  inputs are not mutated; the two output buffers are distinct addresses allocated
  during the call. Writing any buffer \<open>b\<close> over one output therefore leaves the other
  output and both input buffers as they were. (The label lists of the inputs are
  values of the model, which \<open>align\<close> only reads.)
\<close>

theorem align_no_aliasing:
  assumes "align conv h lar1 lar2 join fill cast = Inr ((lar3, lar4), h')"
    and "xaddr lar1 < length h" and "xaddr lar2 < length h"
  shows "length h \<le> length h' \<and> take (length h) h' = h \<and>
         length h \<le> xaddr lar3 \<and> xaddr lar3 < length h' \<and>
         length h \<le> xaddr lar4 \<and> xaddr lar4 < length h' \<and>
         xaddr lar3 \<noteq> xaddr lar4 \<and>
         (\<forall>b. h'[xaddr lar3 := b] ! xaddr lar4 = h' ! xaddr lar4 \<and>
              h'[xaddr lar3 := b] ! xaddr lar1 = h ! xaddr lar1 \<and>
              h'[xaddr lar3 := b] ! xaddr lar2 = h ! xaddr lar2 \<and>
              h'[xaddr lar4 := b] ! xaddr lar3 = h' ! xaddr lar3 \<and>
              h'[xaddr lar4 := b] ! xaddr lar1 = h ! xaddr lar1 \<and>
              h'[xaddr lar4 := b] ! xaddr lar2 = h ! xaddr lar2)"
proof -
  from assms(1) obtain js lar1' lar2' miss1 miss2 h1 v where
    m: "find_missing_markers h lar1 lar2 fill cast = ((lar1', lar2', miss1, miss2), h1)"
    and l: "align_loop conv (label lar1') (label lar2') js miss1 miss2 [0..<larry_ndim h lar2]
       \<lparr>var_label = [], var_x1 = xaddr lar1', var_x2 = xaddr lar2',
        var_x1isview = True, var_x2isview = True, var_heap = h1\<rparr> = Inr v"
    and l3: "lar3 = \<lparr>xaddr = (if var_x1isview v then length (var_heap v) else var_x1 v), label = var_label v\<rparr>"
    and l4: "lar4 = \<lparr>xaddr = (if var_x2isview v
                       then length (var_heap v) + (if var_x1isview v then 1 else 0)
                       else var_x2 v),
             label = var_label v\<rparr>"
    and h': "h' = var_heap v @ (if var_x1isview v then [var_heap v ! var_x1 v] else [])
                    @ (if var_x2isview v
                       then [(var_heap v @ (if var_x1isview v then [var_heap v ! var_x1 v] else [])) ! var_x2 v]
                       else [])"
    by (rule align_elim)
  note f = find_missing_markers_frame[OF m assms(2,3)]
  have g: "var_x1 v < length (var_heap v) \<and> var_x2 v < length (var_heap v) \<and>
     length h1 \<le> length (var_heap v) \<and>
     take (length h1) (var_heap v) = h1 \<and>
     (\<not> var_x1isview v \<longrightarrow> length h1 \<le> var_x1 v) \<and>
     (\<not> var_x2isview v \<longrightarrow> length h1 \<le> var_x2 v) \<and>
     (\<not> var_x1isview v \<and> \<not> var_x2isview v \<longrightarrow> var_x1 v \<noteq> var_x2 v)"
    using align_loop_frame[OF l, of "length h1"] f by simp
  have "take (length h) (var_heap v) = take (length h) (take (length h1) (var_heap v))"
    using f by (simp add: min_def)
  also have "\<dots> = h" using f g by simp
  finally have pre: "take (length h) (var_heap v) = h" .
  have len: "length h \<le> length (var_heap v)" using f g by linarith
  from pre len have a: "take (length h) h' = h" by (simp add: h')
  from len have b: "length h \<le> length h'" by (simp add: h')
  have c: "length h \<le> xaddr lar3 \<and> xaddr lar3 < length h' \<and>
           length h \<le> xaddr lar4 \<and> xaddr lar4 < length h' \<and> xaddr lar3 \<noteq> xaddr lar4"
    using f g len by (auto simp: l3 l4 h')
  have d: "h' ! xaddr lar1 = h ! xaddr lar1" "h' ! xaddr lar2 = h ! xaddr lar2"
    using take_nth_eq[OF a] assms(2,3) by auto
  show ?thesis using a b c d assms(2,3) by auto
qed

lemma align_Inr_collapse:
  "\<not> isl r \<Longrightarrow> r = Inr ((lar3_of r, lar4_of r), heap_of r)"
  by (cases r) (auto simp: lar3_of_def lar4_of_def heap_of_def)

text \<open>The outer join of the docstring example: both outputs are gathered and filled.\<close>

theorem align_no_aliasing_witness:
  "\<not> isl (align conv_same doc_heap doc_lar1 doc_lar2 (JoinStr ''outer'') (VStr ''default'') True) \<and>
   xaddr doc_lar1 < length doc_heap \<and> xaddr doc_lar2 < length doc_heap \<and>
   take (length doc_heap)
     (heap_of (align conv_same doc_heap doc_lar1 doc_lar2 (JoinStr ''outer'') (VStr ''default'') True))
     = doc_heap \<and>
   length doc_heap
     \<le> xaddr (lar3_of (align conv_same doc_heap doc_lar1 doc_lar2 (JoinStr ''outer'') (VStr ''default'') True)) \<and>
   length doc_heap
     \<le> xaddr (lar4_of (align conv_same doc_heap doc_lar1 doc_lar2 (JoinStr ''outer'') (VStr ''default'') True)) \<and>
   xaddr (lar3_of (align conv_same doc_heap doc_lar1 doc_lar2 (JoinStr ''outer'') (VStr ''default'') True))
     \<noteq> xaddr (lar4_of (align conv_same doc_heap doc_lar1 doc_lar2 (JoinStr ''outer'') (VStr ''default'') True))"
proof -
  let ?R = "align conv_same doc_heap doc_lar1 doc_lar2 (JoinStr ''outer'') (VStr ''default'') True"
  have ok: "\<not> isl ?R" by code_simp
  have a1: "xaddr doc_lar1 < length doc_heap" by code_simp
  have a2: "xaddr doc_lar2 < length doc_heap" by code_simp
  from align_no_aliasing[OF align_Inr_collapse[OF ok] a1 a2] ok a1 a2 show ?thesis by blast
qed

subsection \<open>Label lists of the outputs\<close>

lemma align_labels:
  assumes "align conv h lar1 lar2 join fill cast = Inr ((lar3, lar4), h')"
    and "check_join join (larry_ndim h lar2) = Inr js"
    and "ax < larry_ndim h lar2"
  shows "label lar3 ! ax = list3_of (js ! ax) (label lar1 ! ax) (label lar2 ! ax) \<and>
         label lar4 = label lar3 \<and> length (label lar3) = larry_ndim h lar2 \<and>
         recognized (js ! ax) \<and> ax < length (label lar1) \<and> ax < length (label lar2)"
proof -
  from assms(1) obtain js' lar1' lar2' miss1 miss2 h1 v where
    j: "check_join join (larry_ndim h lar2) = Inr js'"
    and m: "find_missing_markers h lar1 lar2 fill cast = ((lar1', lar2', miss1, miss2), h1)"
    and l: "align_loop conv (label lar1') (label lar2') js' miss1 miss2 [0..<larry_ndim h lar2]
       \<lparr>var_label = [], var_x1 = xaddr lar1', var_x2 = xaddr lar2',
        var_x1isview = True, var_x2isview = True, var_heap = h1\<rparr> = Inr v"
    and l3: "lar3 = \<lparr>xaddr = (if var_x1isview v then length (var_heap v) else var_x1 v), label = var_label v\<rparr>"
    and l4: "lar4 = \<lparr>xaddr = (if var_x2isview v
                       then length (var_heap v) + (if var_x1isview v then 1 else 0)
                       else var_x2 v),
             label = var_label v\<rparr>"
    by (rule align_elim)
  from j assms(2) have js: "js' = js" by simp
  note lab = find_missing_markers_label[OF m]
  from align_loop_label[OF l] lab js have
    v: "var_label v = map (\<lambda>ax. list3_of (js ! ax) (label lar1 ! ax) (label lar2 ! ax)) [0..<larry_ndim h lar2]"
    and a: "list_all (\<lambda>ax. ax < length (label lar1) \<and> ax < length (label lar2) \<and> ax < length js \<and> recognized (js ! ax)) [0..<larry_ndim h lar2]"
    by simp_all
  from a assms(3) have "recognized (js ! ax) \<and> ax < length (label lar1) \<and> ax < length (label lar2)"
    by (simp add: list_all_iff)
  with v assms(3) show ?thesis by (simp add: l3 l4)
qed

text \<open>
  Claim C1, as the code has it. When \<open>align\<close> returns and the join method of axis
  \<open>ax\<close> is \<open>'inner'\<close>, the label list of both outputs on that axis is the first
  input's label list, as it stands, if the two input label lists on that axis are
  equal, and the sorted list of the intersection of their label sets otherwise.
\<close>

theorem inner_join_labels:
  assumes "align conv h lar1 lar2 join fill cast = Inr ((lar3, lar4), h')"
    and "check_join join (larry_ndim h lar2) = Inr js"
    and "ax < larry_ndim h lar2"
    and "js ! ax = ''inner''"
  shows "label lar3 ! ax =
           (if label lar1 ! ax = label lar2 ! ax then label lar1 ! ax
            else sorted_list_of_set (set (label lar1 ! ax) \<inter> set (label lar2 ! ax))) \<and>
         label lar4 ! ax = label lar3 ! ax"
  using align_labels[OF assms(1-3)] assms(4) by (simp add: list3_of_def)

text \<open>
  The docstring example: labels \<open>['a', 'b', 'c']\<close> and \<open>['a', 'b', 'dd']\<close> give
  \<open>['a', 'b']\<close>.
\<close>

theorem inner_join_labels_witness:
  "\<not> isl (align conv_same doc_heap doc_lar1 doc_lar2 (JoinStr ''inner'') (VStr ''default'') True) \<and>
   check_join (JoinStr ''inner'') (larry_ndim doc_heap doc_lar2) = Inr [''inner''] \<and>
   0 < larry_ndim doc_heap doc_lar2 \<and>
   label (lar3_of (align conv_same doc_heap doc_lar1 doc_lar2 (JoinStr ''inner'') (VStr ''default'') True)) ! 0 = [''a'', ''b''] \<and>
   label (lar4_of (align conv_same doc_heap doc_lar1 doc_lar2 (JoinStr ''inner'') (VStr ''default'') True)) ! 0 = [''a'', ''b'']"
proof -
  let ?R = "align conv_same doc_heap doc_lar1 doc_lar2 (JoinStr ''inner'') (VStr ''default'') True"
  have ok: "\<not> isl ?R" by code_simp
  have j: "check_join (JoinStr ''inner'') (larry_ndim doc_heap doc_lar2) = Inr [''inner'']"
    by code_simp
  have n: "0 < larry_ndim doc_heap doc_lar2" by code_simp
  have e: "(if label doc_lar1 ! 0 = label doc_lar2 ! 0 then label doc_lar1 ! 0
            else sorted_list_of_set (set (label doc_lar1 ! 0) \<inter> set (label doc_lar2 ! 0))) = [''a'', ''b'']"
    by code_simp
  from inner_join_labels[OF align_Inr_collapse[OF ok] j n] e ok j n show ?thesis by simp
qed

text \<open>
  Claim C1 as stated fails where the two label lists are equal and not in ascending
  order: for \<open>['b', 'a']\<close> on both sides the output label list is \<open>['b', 'a']\<close>, which
  is not the sorted intersection \<open>['a', 'b']\<close>.
\<close>

theorem inner_join_equal_unsorted_labels:
  "\<not> isl (align conv_same ba_heap ba_lar1 ba_lar2 (JoinStr ''inner'') (VStr ''default'') True) \<and>
   label (lar3_of (align conv_same ba_heap ba_lar1 ba_lar2 (JoinStr ''inner'') (VStr ''default'') True)) ! 0
     \<noteq> sorted_list_of_set (set (label ba_lar1 ! 0) \<inter> set (label ba_lar2 ! 0))"
  by code_simp

subsection \<open>\<open>union\<close> and \<open>intersection\<close>\<close>

text \<open>
  Claim C10. \<open>union\<close> called with an axis and no larry returns the empty list: the
  loop over the arguments does not run, and the empty set is sorted into \<open>[]\<close>.
\<close>

theorem union_without_arguments: "union_la axis [] = Inr []"
  by (simp add: union_la_def)

text \<open>
  \<open>union\<close> tests every argument, the first included: when the label lists of the
  larrys among the arguments have the axis, an argument that is not a larry raises
  TypeError.
\<close>

lemma union_loop_not_larry:
  "list_all (\<lambda>a. case a of Larry lar \<Rightarrow> \<not> isl (py_getitem (label lar) axis)
                   | NotLarry other \<Rightarrow> True) args \<Longrightarrow>
   list_ex (\<lambda>a. case a of Larry lar \<Rightarrow> False | NotLarry other \<Rightarrow> True) args \<Longrightarrow>
   union_loop axis args rc = Inl TypeError"
proof (induction args arbitrary: rc)
  case Nil
  then show ?case by simp
next
  case (Cons a args)
  then show ?case by (cases a) (auto split: sum.splits)
qed

lemma union_la_not_larry:
  "list_all (\<lambda>a. case a of Larry lar \<Rightarrow> \<not> isl (py_getitem (label lar) axis)
                   | NotLarry other \<Rightarrow> True) args \<Longrightarrow>
   list_ex (\<lambda>a. case a of Larry lar \<Rightarrow> False | NotLarry other \<Rightarrow> True) args \<Longrightarrow>
   union_la axis args = Inl TypeError"
  by (simp add: union_la_def union_loop_not_larry)

text \<open>
  Claim C8 asks a TypeError for an argument that is not a larry, in any position.
  \<open>intersection\<close> reads \<open>args[0].label[axis]\<close> before any test: a first argument
  without an attribute \<open>label\<close> raises AttributeError, and one of another class that
  has such an attribute is accepted and a result returned.
\<close>

theorem intersection_first_argument:
  "intersection axis (NotLarry None # args) = Inl AttributeError \<and>
   intersection 0 [NotLarry (Some [[''b'', ''z'']]), Larry doc_y2] = Inr [''b'']"
proof
  show "intersection axis (NotLarry None # args) = Inl AttributeError"
    by (simp add: intersection_def py_getitem_def getattr_label_def)
  show "intersection 0 [NotLarry (Some [[''b'', ''z'']]), Larry doc_y2] = Inr [''b'']"
    by code_simp
qed

subsection \<open>Aligning a larry with itself\<close>

lemma align_axis_same:
  assumes "ax < length label1" and "ax < length label2" and "ax < length js"
    and "label1 ! ax = label2 ! ax" and "recognized (js ! ax)"
  shows "align_axis conv label1 label2 js miss1 miss2 v ax =
         Inr (v\<lparr>var_label := var_label v @ [label1 ! ax]\<rparr>)"
  using assms by (auto simp: align_axis_def py_getitem_nat recognized_def)

lemma align_loop_same:
  "list_all (\<lambda>ax. ax < length label1 \<and> ax < length label2 \<and> ax < length js \<and>
                  label1 ! ax = label2 ! ax \<and> recognized (js ! ax)) axs \<Longrightarrow>
   align_loop conv label1 label2 js miss1 miss2 axs v =
   Inr (v\<lparr>var_label := var_label v @ map (\<lambda>ax. label1 ! ax) axs\<rparr>)"
proof (induction axs arbitrary: v)
  case Nil
  then show ?case by simp
next
  case (Cons ax axs)
  then show ?case by (simp add: align_axis_same)
qed

lemma check_join_length: "check_join join n = Inr js \<Longrightarrow> length js = n"
  by (auto simp: check_join_def split: joinspec.splits if_splits)

lemma self_alignment_result:
  assumes j: "check_join join (larry_ndim h lar) = Inr js"
    and r: "list_all recognized js"
    and n: "length (label lar) = larry_ndim h lar"
    and m: "find_missing_markers h lar lar fill cast = ((lar1', lar2', miss1, miss2), h1)"
    and a: "xaddr lar < length h"
  shows "align conv h lar lar join fill cast =
         Inr ((\<lparr>xaddr = length h1, label = label lar\<rparr>,
               \<lparr>xaddr = Suc (length h1), label = label lar\<rparr>),
              h1 @ [h1 ! xaddr lar1', h1 ! xaddr lar2'])"
proof -
  let ?n = "larry_ndim h lar"
  note lab = find_missing_markers_label[OF m]
  from check_join_length[OF j] have lj: "length js = ?n" .
  have "list_all (\<lambda>ax. ax < length (label lar1') \<and> ax < length (label lar2') \<and> ax < length js \<and>
                  label lar1' ! ax = label lar2' ! ax \<and> recognized (js ! ax)) [0..<?n]"
    using lab n lj r by (auto simp: list_all_iff)
  from align_loop_same[OF this]
  have l: "align_loop conv (label lar1') (label lar2') js miss1 miss2 [0..<?n] v =
           Inr (v\<lparr>var_label := var_label v @ map (\<lambda>ax. label lar1' ! ax) [0..<?n]\<rparr>)" for v .
  have "map ((!) (label lar)) [0..<length (label lar)] = label lar" by (rule map_nth)
  then have t: "map (\<lambda>ax. label lar1' ! ax) [0..<?n] = label lar"
    using lab n by simp
  from find_missing_markers_frame[OF m a a]
  have x: "xaddr lar1' < length h1" "xaddr lar2' < length h1" by simp_all
  show ?thesis
    unfolding align_def Let_def
    by (simp add: j m l t x np_copy_def larry_new_def nth_append)
qed

lemma find_missing_markers_self:
  assumes "xaddr lar < length h"
  shows "find_missing_markers h lar lar fill cast =
     (if fill = VStr ''default'' \<and> cast \<and> missing_marker h lar = VNotImplemented
      then ((\<lparr>xaddr = length h, label = label lar\<rparr>, \<lparr>xaddr = Suc (length h), label = label lar\<rparr>,
             VNaN, VNaN),
            h @ [(h ! xaddr lar)\<lparr>dtype := DFloat, elems := (\<lambda>i. to_float (elems (h ! xaddr lar) i))\<rparr>,
                 (h ! xaddr lar)\<lparr>dtype := DFloat, elems := (\<lambda>i. to_float (elems (h ! xaddr lar) i))\<rparr>])
      else ((lar, lar, if fill = VStr ''default'' then missing_marker h lar else fill,
             if fill = VStr ''default'' then missing_marker h lar else fill), h))"
  using assms
  by (auto simp: find_missing_markers_def astype_float_def missing_marker_def Let_def nth_append
           split: dtype.splits)

text \<open>
  Claim C3, as the code has it. A larry whose label lists are as many as the axes of
  its buffer, aligned with itself under recognized join methods: \<open>align\<close> returns,
  both outputs carry the original label lists in their original order, and the store
  only grows by copies, so nothing is gathered or filled. The two output buffers are
  copies of the original buffer, except when \<open>fill\<close> is \<open>'default'\<close>, \<open>cast\<close> is set and
  the element type has no missing marker: then they are copies of the original cast
  to float.
\<close>

theorem align_self:
  assumes "check_join join (larry_ndim h lar) = Inr js"
    and "list_all recognized js"
    and "length (label lar) = larry_ndim h lar"
    and "xaddr lar < length h"
  shows "align conv h lar lar join fill cast =
     (if fill = VStr ''default'' \<and> cast \<and> missing_marker h lar = VNotImplemented
      then let c = (h ! xaddr lar)\<lparr>dtype := DFloat,
                                   elems := (\<lambda>i. to_float (elems (h ! xaddr lar) i))\<rparr>
           in Inr ((\<lparr>xaddr = length h + 2, label = label lar\<rparr>,
                    \<lparr>xaddr = length h + 3, label = label lar\<rparr>),
                   h @ [c, c, c, c])
      else Inr ((\<lparr>xaddr = length h, label = label lar\<rparr>,
                 \<lparr>xaddr = length h + 1, label = label lar\<rparr>),
                h @ [h ! xaddr lar, h ! xaddr lar]))"
proof (cases "fill = VStr ''default'' \<and> cast \<and> missing_marker h lar = VNotImplemented")
  case True
  with find_missing_markers_self[OF assms(4), of fill cast]
  have m: "find_missing_markers h lar lar fill cast =
      ((\<lparr>xaddr = length h, label = label lar\<rparr>, \<lparr>xaddr = Suc (length h), label = label lar\<rparr>,
             VNaN, VNaN),
            h @ [(h ! xaddr lar)\<lparr>dtype := DFloat, elems := (\<lambda>i. to_float (elems (h ! xaddr lar) i))\<rparr>,
                 (h ! xaddr lar)\<lparr>dtype := DFloat, elems := (\<lambda>i. to_float (elems (h ! xaddr lar) i))\<rparr>])"
    by simp
  from self_alignment_result[OF assms(1-3) m assms(4), of conv] True show ?thesis
    by (simp add: nth_append Let_def)
next
  case False
  with find_missing_markers_self[OF assms(4), of fill cast]
  have m: "find_missing_markers h lar lar fill cast =
      ((lar, lar, if fill = VStr ''default'' then missing_marker h lar else fill,
             if fill = VStr ''default'' then missing_marker h lar else fill), h)"
    by auto
  from self_alignment_result[OF assms(1-3) m assms(4), of conv] show ?thesis
    unfolding if_not_P[OF False] by simp
qed

text \<open>The first larry of the docstring example, aligned with itself by an outer join.\<close>

theorem align_self_witness:
  "check_join (JoinStr ''outer'') (larry_ndim doc_heap doc_lar1) = Inr [''outer''] \<and>
   list_all recognized [''outer''] \<and>
   length (label doc_lar1) = larry_ndim doc_heap doc_lar1 \<and>
   xaddr doc_lar1 < length doc_heap \<and>
   align conv_same doc_heap doc_lar1 doc_lar1 (JoinStr ''outer'') (VStr ''default'') True =
     Inr ((\<lparr>xaddr = 2, label = [[''a'', ''b'', ''c'']]\<rparr>, \<lparr>xaddr = 3, label = [[''a'', ''b'', ''c'']]\<rparr>),
          doc_heap @ [doc_heap ! 0, doc_heap ! 0])"
proof -
  have j: "check_join (JoinStr ''outer'') (larry_ndim doc_heap doc_lar1) = Inr [''outer'']"
    by code_simp
  have r: "list_all recognized [''outer'']" by code_simp
  have n: "length (label doc_lar1) = larry_ndim doc_heap doc_lar1" by code_simp
  have a: "xaddr doc_lar1 < length doc_heap" by code_simp
  have m: "missing_marker doc_heap doc_lar1 = VNaN" by code_simp
  have l: "length doc_heap = 2" "xaddr doc_lar1 = 0"
    "label doc_lar1 = [[''a'', ''b'', ''c'']]"
    by (simp_all add: doc_heap_def doc_lar1_def)
  from align_self[OF j r n a, of conv_same "VStr ''default''" True] j r n a show ?thesis
    by (simp add: m l)
qed

lemma bitlen_big: "bitlen 9007199254740993 = 54"
  by simp

lemma float64_big: "float64_of_int 9007199254740993 = 9007199254740992"
  by (simp add: float64_of_int_def Let_def bitlen_big del: bitlen.simps)

text \<open>
  Claim C3 as stated fails for an integer larry under the defaults of \<open>align\<close>: the
  outputs are float buffers, and the element 2^53 + 1 comes back as 2^53.
\<close>

theorem align_self_cast_changes_content:
  "\<not> isl (align conv_same int_heap int_lar int_lar (JoinStr ''inner'') (VStr ''default'') True) \<and>
   elems (int_heap ! xaddr int_lar) [0] = VInt 9007199254740993 \<and>
   elems (heap_of (align conv_same int_heap int_lar int_lar (JoinStr ''inner'') (VStr ''default'') True)
          ! xaddr (lar3_of (align conv_same int_heap int_lar int_lar (JoinStr ''inner'') (VStr ''default'') True)))
     [0] = VFloat 9007199254740992 \<and>
   dtype (int_heap ! xaddr int_lar) = DInt \<and>
   dtype (heap_of (align conv_same int_heap int_lar int_lar (JoinStr ''inner'') (VStr ''default'') True)
          ! xaddr (lar3_of (align conv_same int_heap int_lar int_lar (JoinStr ''inner'') (VStr ''default'') True)))
     = DFloat"
proof -
  let ?c = "(int_heap ! 0)\<lparr>dtype := DFloat, elems := (\<lambda>i. to_float (elems (int_heap ! 0) i))\<rparr>"
  have j: "check_join (JoinStr ''inner'') (larry_ndim int_heap int_lar) = Inr [''inner'']"
    by (simp add: check_join_def larry_ndim_def int_heap_def int_lar_def np_array1_def)
  have r: "list_all recognized [''inner'']" by (simp add: recognized_def)
  have n: "length (label int_lar) = larry_ndim int_heap int_lar"
    by (simp add: larry_ndim_def int_heap_def int_lar_def np_array1_def)
  have a: "xaddr int_lar < length int_heap" by (simp add: int_heap_def int_lar_def)
  have l: "length int_heap = 1" "xaddr int_lar = 0" by (simp_all add: int_heap_def int_lar_def)
  have mm: "missing_marker int_heap int_lar = VNotImplemented"
    by (simp add: missing_marker_def int_heap_def int_lar_def np_array1_def)
  from find_missing_markers_self[OF a, of "VStr ''default''" True] mm l
  have m: "find_missing_markers int_heap int_lar int_lar (VStr ''default'') True =
      ((\<lparr>xaddr = 1, label = label int_lar\<rparr>, \<lparr>xaddr = 2, label = label int_lar\<rparr>, VNaN, VNaN),
       int_heap @ [?c, ?c])"
    by simp
  from self_alignment_result[OF j r n m a, of conv_same] l
  have R: "align conv_same int_heap int_lar int_lar (JoinStr ''inner'') (VStr ''default'') True =
      Inr ((\<lparr>xaddr = 3, label = label int_lar\<rparr>, \<lparr>xaddr = 4, label = label int_lar\<rparr>),
           int_heap @ [?c, ?c, ?c, ?c])"
    by (simp add: nth_append)
  have e: "elems (int_heap ! 0) [0] = VInt 9007199254740993" "dtype (int_heap ! 0) = DInt"
    by (simp_all add: int_heap_def np_array1_def)
  have f: "to_float (VInt 9007199254740993) = VFloat 9007199254740992"
    by (simp add: to_float_def float64_big)
  show ?thesis
    unfolding R by (simp add: heap_of_def lar3_of_def l nth_append e f)
qed

text \<open>
  Claim C5 asks a TypeError whenever the element type has no missing marker, \<open>fill\<close>
  is left at its default and \<open>cast\<close> is False (so does the docstring of \<open>align\<close>). The
  code raises it only from a fill: an integer larry aligned with itself, where no axis
  needs one, is returned as two copies.
\<close>

theorem align_int_no_cast_returns:
  "align conv int_heap int_lar int_lar (JoinStr ''inner'') (VStr ''default'') False =
     Inr ((\<lparr>xaddr = 1, label = [[''a'']]\<rparr>, \<lparr>xaddr = 2, label = [[''a'']]\<rparr>),
          int_heap @ [int_heap ! 0, int_heap ! 0]) \<and>
   missing_marker int_heap int_lar = VNotImplemented"
proof -
  have j: "check_join (JoinStr ''inner'') (larry_ndim int_heap int_lar) = Inr [''inner'']"
    by code_simp
  have r: "list_all recognized [''inner'']" by code_simp
  have n: "length (label int_lar) = larry_ndim int_heap int_lar" by code_simp
  have mm: "missing_marker int_heap int_lar = VNotImplemented" by code_simp
  have m: "find_missing_markers int_heap int_lar int_lar (VStr ''default'') False =
           ((int_lar, int_lar, VNotImplemented, VNotImplemented), int_heap)"
    by (simp add: find_missing_markers_def mm)
  have l: "length int_heap = 1" "xaddr int_lar = 0" "label int_lar = [[''a'']]"
    by (simp_all add: int_heap_def int_lar_def)
  have a: "xaddr int_lar < length int_heap" by code_simp
  from self_alignment_result[OF j r n m a, of conv] mm show ?thesis
    by (simp add: l)
qed

subsection \<open>Left and right joins\<close>



subsection \<open>What an outer join fills\<close>

lemma filled_take:
  assumes "ax' \<noteq> ax" and "\<forall>idx. idx ! ax \<in> S \<longrightarrow> elems a idx = w"
  shows "\<forall>idx. idx ! ax \<in> S \<longrightarrow> elems (take_buf a ix ax') idx = w"
  using assms by (simp add: take_buf_def)

lemma filled_fill:
  assumes "\<forall>idx. idx ! ax \<in> S \<longrightarrow> elems a idx = w"
  shows "\<forall>idx. idx ! ax \<in> S \<longrightarrow> elems (fill_buf a ax' pos w) idx = w"
  using assms by (simp add: fill_buf_def)

lemma filled_fill_here:
  assumes "S \<subseteq> set pos"
  shows "\<forall>idx. idx ! ax \<in> S \<longrightarrow> elems (fill_buf a ax pos w) idx = w"
  using assms by (auto simp: fill_buf_def)

lemma listmap_fill_missing:
  "set (snd (listmap_fill list1 list2 fill)) = {i. i < length list2 \<and> list2 ! i \<notin> set list1}"
  by (auto simp: listmap_fill_def)

lemma align_axis_filled:
  assumes step: "align_axis conv label1 label2 js miss1 miss2 v ax' = Inr v'"
    and x1: "var_x1 v < length (var_heap v)"
    and x2: "var_x2 v < length (var_heap v)"
    and ne: "ax' \<noteq> ax"
    and c1: "conv (dtype (var_heap v ! var_x1 v)) miss1 = Inr w1"
    and c2: "conv (dtype (var_heap v ! var_x2 v)) miss2 = Inr w2"
    and f1: "\<forall>idx. idx ! ax \<in> S1 \<longrightarrow> elems (var_heap v ! var_x1 v) idx = w1"
    and f2: "\<forall>idx. idx ! ax \<in> S2 \<longrightarrow> elems (var_heap v ! var_x2 v) idx = w2"
  shows "dtype (var_heap v' ! var_x1 v') = dtype (var_heap v ! var_x1 v) \<and>
         dtype (var_heap v' ! var_x2 v') = dtype (var_heap v ! var_x2 v) \<and>
         (\<forall>idx. idx ! ax \<in> S1 \<longrightarrow> elems (var_heap v' ! var_x1 v') idx = w1) \<and>
         (\<forall>idx. idx ! ax \<in> S2 \<longrightarrow> elems (var_heap v' ! var_x2 v') idx = w2)"
  using step x1 x2
proof (cases rule: align_axis_cases)
  case same
  with f1 f2 show ?thesis by simp
next
  case (inner idx1 idx2 list3)
  with filled_take[OF ne f1, of idx1] filled_take[OF ne f2, of idx2] show ?thesis
    by (simp add: nth_append)
next
  case (outer u1 u2 list3)
  from outer(4) c1 have u1: "u1 = w1" by simp
  from outer(5) c2 have u2: "u2 = w2" by simp
  from outer(6) u1 u2
    filled_fill[OF filled_take[OF ne f1], of "fst (listmap_fill (label1 ! ax') list3 0)" ax'
       "snd (listmap_fill (label1 ! ax') list3 0)"]
    filled_fill[OF filled_take[OF ne f2], of "fst (listmap_fill (label2 ! ax') list3 0)" ax'
       "snd (listmap_fill (label2 ! ax') list3 0)"]
  show ?thesis by (simp add: nth_append)
next
  case (left u2)
  from left(3) c2 have u2: "u2 = w2" by simp
  from left(4) u2 x1 f1
    filled_fill[OF filled_take[OF ne f2], of "fst (listmap_fill (label2 ! ax') (label1 ! ax') 0)" ax'
       "snd (listmap_fill (label2 ! ax') (label1 ! ax') 0)"]
  show ?thesis by (simp add: nth_append)
next
  case (right u1)
  from right(3) c1 have u1: "u1 = w1" by simp
  from right(4) u1 x2 f2
    filled_fill[OF filled_take[OF ne f1], of "fst (listmap_fill (label1 ! ax') (label2 ! ax') 0)" ax'
       "snd (listmap_fill (label1 ! ax') (label2 ! ax') 0)"]
  show ?thesis by (simp add: nth_append)
qed

lemma align_axis_valid:
  assumes step: "align_axis conv label1 label2 js miss1 miss2 v ax = Inr v'"
    and x1: "var_x1 v < length (var_heap v)"
    and x2: "var_x2 v < length (var_heap v)"
  shows "var_x1 v' < length (var_heap v') \<and> var_x2 v' < length (var_heap v')"
  using step x1 x2
proof (cases rule: align_axis_cases)
  case same
  with x1 x2 show ?thesis by simp
next
  case (inner idx1 idx2 list3)
  then show ?thesis by simp
next
  case (outer w1 w2 list3)
  then show ?thesis by simp
next
  case (left w2)
  with x1 show ?thesis by simp
next
  case (right w1)
  with x2 show ?thesis by simp
qed

lemma align_loop_filled:
  "align_loop conv label1 label2 js miss1 miss2 axs v = Inr v' \<Longrightarrow>
   ax \<notin> set axs \<Longrightarrow>
   var_x1 v < length (var_heap v) \<Longrightarrow> var_x2 v < length (var_heap v) \<Longrightarrow>
   conv (dtype (var_heap v ! var_x1 v)) miss1 = Inr w1 \<Longrightarrow>
   conv (dtype (var_heap v ! var_x2 v)) miss2 = Inr w2 \<Longrightarrow>
   \<forall>idx. idx ! ax \<in> S1 \<longrightarrow> elems (var_heap v ! var_x1 v) idx = w1 \<Longrightarrow>
   \<forall>idx. idx ! ax \<in> S2 \<longrightarrow> elems (var_heap v ! var_x2 v) idx = w2 \<Longrightarrow>
   dtype (var_heap v' ! var_x1 v') = dtype (var_heap v ! var_x1 v) \<and>
   dtype (var_heap v' ! var_x2 v') = dtype (var_heap v ! var_x2 v) \<and>
   (\<forall>idx. idx ! ax \<in> S1 \<longrightarrow> elems (var_heap v' ! var_x1 v') idx = w1) \<and>
   (\<forall>idx. idx ! ax \<in> S2 \<longrightarrow> elems (var_heap v' ! var_x2 v') idx = w2)"
proof (induction axs arbitrary: v)
  case Nil
  then show ?case by simp
next
  case (Cons ax' axs)
  from Cons.prems(1) obtain u where
    u: "align_axis conv label1 label2 js miss1 miss2 v ax' = Inr u"
    and r: "align_loop conv label1 label2 js miss1 miss2 axs u = Inr v'"
    by (auto split: sum.splits)
  from Cons.prems(2) have ne: "ax' \<noteq> ax" and nin: "ax \<notin> set axs" by auto
  note val = align_axis_valid[OF u Cons.prems(3,4)]
  note f = align_axis_filled[OF u Cons.prems(3,4) ne Cons.prems(5-8)]
  from f Cons.prems(5,6) have
    c: "conv (dtype (var_heap u ! var_x1 u)) miss1 = Inr w1"
       "conv (dtype (var_heap u ! var_x2 u)) miss2 = Inr w2"
    by simp_all
  from f have g: "\<forall>idx. idx ! ax \<in> S1 \<longrightarrow> elems (var_heap u ! var_x1 u) idx = w1"
    "\<forall>idx. idx ! ax \<in> S2 \<longrightarrow> elems (var_heap u ! var_x2 u) idx = w2"
    by blast+
  from val have val': "var_x1 u < length (var_heap u)" "var_x2 u < length (var_heap u)"
    by simp_all
  from Cons.IH[OF r nin val' c g] f show ?case by simp
qed

lemma align_axis_outer_filled:
  assumes step: "align_axis conv label1 label2 js miss1 miss2 v ax = Inr v'"
    and x1: "var_x1 v < length (var_heap v)"
    and x2: "var_x2 v < length (var_heap v)"
    and j: "js ! ax = ''outer''"
    and ne: "label1 ! ax \<noteq> label2 ! ax"
  shows "\<exists>w1 w2.
     conv (dtype (var_heap v ! var_x1 v)) miss1 = Inr w1 \<and>
     conv (dtype (var_heap v ! var_x2 v)) miss2 = Inr w2 \<and>
     dtype (var_heap v' ! var_x1 v') = dtype (var_heap v ! var_x1 v) \<and>
     dtype (var_heap v' ! var_x2 v') = dtype (var_heap v ! var_x2 v) \<and>
     (\<forall>idx. idx ! ax \<in> {i. i < length (sorted_list_of_set (set (label1 ! ax) \<union> set (label2 ! ax))) \<and>
                          sorted_list_of_set (set (label1 ! ax) \<union> set (label2 ! ax)) ! i
                            \<notin> set (label1 ! ax)} \<longrightarrow>
            elems (var_heap v' ! var_x1 v') idx = w1) \<and>
     (\<forall>idx. idx ! ax \<in> {i. i < length (sorted_list_of_set (set (label1 ! ax) \<union> set (label2 ! ax))) \<and>
                          sorted_list_of_set (set (label1 ! ax) \<union> set (label2 ! ax)) ! i
                            \<notin> set (label2 ! ax)} \<longrightarrow>
            elems (var_heap v' ! var_x2 v') idx = w2)"
  using step x1 x2
proof (cases rule: align_axis_cases)
  case same
  with ne show ?thesis by simp
next
  case (inner idx1 idx2 list3)
  with j show ?thesis by simp
next
  case (outer w1 w2 list3)
  let ?L = "sorted_list_of_set (set (label1 ! ax) \<union> set (label2 ! ax))"
  have a: "\<forall>idx. idx ! ax \<in> {i. i < length ?L \<and> ?L ! i \<notin> set (label1 ! ax)} \<longrightarrow>
       elems (fill_buf (take_buf (var_heap v ! var_x1 v) (fst (listmap_fill (label1 ! ax) ?L 0)) ax)
                ax (snd (listmap_fill (label1 ! ax) ?L 0)) w1) idx = w1"
    by (rule filled_fill_here) (simp add: listmap_fill_missing)
  have b: "\<forall>idx. idx ! ax \<in> {i. i < length ?L \<and> ?L ! i \<notin> set (label2 ! ax)} \<longrightarrow>
       elems (fill_buf (take_buf (var_heap v ! var_x2 v) (fst (listmap_fill (label2 ! ax) ?L 0)) ax)
                ax (snd (listmap_fill (label2 ! ax) ?L 0)) w2) idx = w2"
    by (rule filled_fill_here) (simp add: listmap_fill_missing)
  from outer(3-6) a b show ?thesis
    by (intro exI[of _ w1] exI[of _ w2]) (simp add: nth_append)
next
  case (left w2)
  with j show ?thesis by simp
next
  case (right w1)
  with j show ?thesis by simp
qed

lemma upt_split:
  assumes "ax < n"
  shows "[0..<n] = [0..<ax] @ ax # [Suc ax..<n]"
proof -
  from assms have "[0..<ax + (n - ax)] = [0..<ax] @ [ax..<ax + (n - ax)]"
    by (intro upt_add_eq_append) simp
  with assms show ?thesis by (simp add: upt_conv_Cons)
qed

text \<open>
  Claim C2, as the code has it. When \<open>align\<close> returns and the join method of axis
  \<open>ax\<close> is \<open>'outer'\<close>, the label list of both outputs on that axis is the first
  input's label list, as it stands, if the two input label lists on that axis are
  equal, and the sorted list of the union of their label sets otherwise. At every
  index tuple whose component \<open>ax\<close> is the position of a label that the first input
  lacks, the first output holds the first marker (the marker found for the array, or
  the explicit fill value) as numpy converts it to the element type of the buffer;
  the same holds for the second output, the second input and the second marker.
\<close>

theorem outer_join:
  assumes al: "align conv h lar1 lar2 join fill cast = Inr ((lar3, lar4), h')"
    and a1: "xaddr lar1 < length h" and a2: "xaddr lar2 < length h"
    and cj: "check_join join (larry_ndim h lar2) = Inr js"
    and ax: "ax < larry_ndim h lar2" and j: "js ! ax = ''outer''"
    and fm: "find_missing_markers h lar1 lar2 fill cast = ((lar1', lar2', miss1, miss2), h1)"
  shows "label lar3 ! ax =
           (if label lar1 ! ax = label lar2 ! ax then label lar1 ! ax
            else sorted_list_of_set (set (label lar1 ! ax) \<union> set (label lar2 ! ax))) \<and>
         label lar4 ! ax = label lar3 ! ax \<and>
         (\<forall>i idx. i < length (label lar3 ! ax) \<and> idx ! ax = i \<longrightarrow>
            (label lar3 ! ax ! i \<notin> set (label lar1 ! ax) \<longrightarrow>
               conv (dtype (h' ! xaddr lar3)) miss1 = Inr (elems (h' ! xaddr lar3) idx)) \<and>
            (label lar3 ! ax ! i \<notin> set (label lar2 ! ax) \<longrightarrow>
               conv (dtype (h' ! xaddr lar4)) miss2 = Inr (elems (h' ! xaddr lar4) idx)))"
proof -
  let ?n = "larry_ndim h lar2"
  let ?l1 = "label lar1 ! ax" and ?l2 = "label lar2 ! ax"
  let ?L = "sorted_list_of_set (set ?l1 \<union> set ?l2)"
  let ?v0 = "\<lparr>var_label = [], var_x1 = xaddr lar1', var_x2 = xaddr lar2',
              var_x1isview = True, var_x2isview = True, var_heap = h1\<rparr>"
  from align_labels[OF al cj ax] j have
    lab3: "label lar3 ! ax = (if ?l1 = ?l2 then ?l1 else ?L)"
    and lab4: "label lar4 ! ax = label lar3 ! ax"
    by (simp_all add: list3_of_def)
  show ?thesis
  proof (cases "?l1 = ?l2")
    case True
    with lab3 lab4 show ?thesis by simp
  next
    case False
    from al obtain js0 la lb ma mb hh v where
      cj0: "check_join join ?n = Inr js0"
      and fm0: "find_missing_markers h lar1 lar2 fill cast = ((la, lb, ma, mb), hh)"
      and lp0: "align_loop conv (label la) (label lb) js0 ma mb [0..<?n]
         \<lparr>var_label = [], var_x1 = xaddr la, var_x2 = xaddr lb,
          var_x1isview = True, var_x2isview = True, var_heap = hh\<rparr> = Inr v"
      and l3: "lar3 = \<lparr>xaddr = (if var_x1isview v then length (var_heap v) else var_x1 v),
                       label = var_label v\<rparr>"
      and l4: "lar4 = \<lparr>xaddr = (if var_x2isview v
                         then length (var_heap v) + (if var_x1isview v then 1 else 0)
                         else var_x2 v),
               label = var_label v\<rparr>"
      and h': "h' = var_heap v @ (if var_x1isview v then [var_heap v ! var_x1 v] else [])
                      @ (if var_x2isview v
                         then [(var_heap v @ (if var_x1isview v then [var_heap v ! var_x1 v] else [])) ! var_x2 v]
                         else [])"
      by (rule align_elim)
    from cj cj0 fm fm0 have eq: "js0 = js" "la = lar1'" "lb = lar2'" "ma = miss1" "mb = miss2" "hh = h1"
      by simp_all
    note labs = find_missing_markers_label[OF fm]
    from lp0 eq labs have lp:
      "align_loop conv (label lar1) (label lar2) js miss1 miss2 [0..<?n] ?v0 = Inr v"
      by simp
    note fr = find_missing_markers_frame[OF fm a1 a2]
    from lp upt_split[OF ax] obtain va vb where
      pa: "align_loop conv (label lar1) (label lar2) js miss1 miss2 [0..<ax] ?v0 = Inr va"
      and pb: "align_axis conv (label lar1) (label lar2) js miss1 miss2 va ax = Inr vb"
      and pc: "align_loop conv (label lar1) (label lar2) js miss1 miss2 [Suc ax..<?n] vb = Inr v"
      by (auto simp: align_loop_append split: sum.splits)
    from align_loop_frame[OF pa, of "length h1"] fr have
      va: "var_x1 va < length (var_heap va)" "var_x2 va < length (var_heap va)"
      by simp_all
    from align_axis_valid[OF pb va] have
      vb: "var_x1 vb < length (var_heap vb)" "var_x2 vb < length (var_heap vb)"
      by simp_all
    from align_loop_frame[OF lp, of "length h1"] fr have
      vv: "var_x1 v < length (var_heap v)" "var_x2 v < length (var_heap v)"
      by simp_all
    from align_axis_outer_filled[OF pb va j False] obtain w1 w2 where
      c1: "conv (dtype (var_heap va ! var_x1 va)) miss1 = Inr w1"
      and c2: "conv (dtype (var_heap va ! var_x2 va)) miss2 = Inr w2"
      and d1: "dtype (var_heap vb ! var_x1 vb) = dtype (var_heap va ! var_x1 va)"
      and d2: "dtype (var_heap vb ! var_x2 vb) = dtype (var_heap va ! var_x2 va)"
      and f1: "\<forall>idx. idx ! ax \<in> {i. i < length ?L \<and> ?L ! i \<notin> set ?l1} \<longrightarrow>
                 elems (var_heap vb ! var_x1 vb) idx = w1"
      and f2: "\<forall>idx. idx ! ax \<in> {i. i < length ?L \<and> ?L ! i \<notin> set ?l2} \<longrightarrow>
                 elems (var_heap vb ! var_x2 vb) idx = w2"
      by blast
    from c1 d1 have c1': "conv (dtype (var_heap vb ! var_x1 vb)) miss1 = Inr w1" by simp
    from c2 d2 have c2': "conv (dtype (var_heap vb ! var_x2 vb)) miss2 = Inr w2" by simp
    have nin: "ax \<notin> set [Suc ax..<?n]" by simp
    from align_loop_filled[OF pc nin vb c1' c2' f1 f2] have
      e1: "dtype (var_heap v ! var_x1 v) = dtype (var_heap vb ! var_x1 vb)"
      and e2: "dtype (var_heap v ! var_x2 v) = dtype (var_heap vb ! var_x2 vb)"
      and g1: "\<forall>idx. idx ! ax \<in> {i. i < length ?L \<and> ?L ! i \<notin> set ?l1} \<longrightarrow>
                 elems (var_heap v ! var_x1 v) idx = w1"
      and g2: "\<forall>idx. idx ! ax \<in> {i. i < length ?L \<and> ?L ! i \<notin> set ?l2} \<longrightarrow>
                 elems (var_heap v ! var_x2 v) idx = w2"
      by blast+
    from vv have o3: "h' ! xaddr lar3 = var_heap v ! var_x1 v"
      by (simp add: l3 h' nth_append)
    from vv have o4: "h' ! xaddr lar4 = var_heap v ! var_x2 v"
      by (simp add: l4 h' nth_append)
    from c1' e1 o3 have k1: "conv (dtype (h' ! xaddr lar3)) miss1 = Inr w1" by simp
    from c2' e2 o4 have k2: "conv (dtype (h' ! xaddr lar4)) miss2 = Inr w2" by simp
    from False lab3 have L: "label lar3 ! ax = ?L" by simp
    from g1 g2 o3 o4 k1 k2 lab3 lab4 show ?thesis
      unfolding L by auto
  qed
qed

text \<open>
  The docstring example: labels \<open>['a', 'b', 'c']\<close> and \<open>['a', 'b', 'dd']\<close> give
  \<open>['a', 'b', 'c', 'dd']\<close>; the first output holds not-a-number at \<open>'dd'\<close> and the
  second at \<open>'c'\<close>.
\<close>

theorem outer_join_witness:
  "\<not> isl (align conv_same doc_heap doc_lar1 doc_lar2 (JoinStr ''outer'') (VStr ''default'') True) \<and>
   xaddr doc_lar1 < length doc_heap \<and> xaddr doc_lar2 < length doc_heap \<and>
   check_join (JoinStr ''outer'') (larry_ndim doc_heap doc_lar2) = Inr [''outer''] \<and>
   0 < larry_ndim doc_heap doc_lar2 \<and>
   find_missing_markers doc_heap doc_lar1 doc_lar2 (VStr ''default'') True
     = ((doc_lar1, doc_lar2, VNaN, VNaN), doc_heap) \<and>
   label (lar3_of (align conv_same doc_heap doc_lar1 doc_lar2 (JoinStr ''outer'') (VStr ''default'') True)) ! 0
     = [''a'', ''b'', ''c'', ''dd''] \<and>
   label (lar4_of (align conv_same doc_heap doc_lar1 doc_lar2 (JoinStr ''outer'') (VStr ''default'') True)) ! 0
     = [''a'', ''b'', ''c'', ''dd''] \<and>
   elems (heap_of (align conv_same doc_heap doc_lar1 doc_lar2 (JoinStr ''outer'') (VStr ''default'') True)
          ! xaddr (lar3_of (align conv_same doc_heap doc_lar1 doc_lar2 (JoinStr ''outer'') (VStr ''default'') True)))
     [3] = VNaN \<and>
   elems (heap_of (align conv_same doc_heap doc_lar1 doc_lar2 (JoinStr ''outer'') (VStr ''default'') True)
          ! xaddr (lar4_of (align conv_same doc_heap doc_lar1 doc_lar2 (JoinStr ''outer'') (VStr ''default'') True)))
     [2] = VNaN"
proof -
  let ?R = "align conv_same doc_heap doc_lar1 doc_lar2 (JoinStr ''outer'') (VStr ''default'') True"
  let ?b3 = "heap_of ?R ! xaddr (lar3_of ?R)" and ?b4 = "heap_of ?R ! xaddr (lar4_of ?R)"
  have ok: "\<not> isl ?R" by code_simp
  have a1: "xaddr doc_lar1 < length doc_heap" by code_simp
  have a2: "xaddr doc_lar2 < length doc_heap" by code_simp
  have cj: "check_join (JoinStr ''outer'') (larry_ndim doc_heap doc_lar2) = Inr [''outer'']"
    by code_simp
  have n: "0 < larry_ndim doc_heap doc_lar2" by code_simp
  have j: "[''outer''] ! 0 = ''outer''" by simp
  have fm: "find_missing_markers doc_heap doc_lar1 doc_lar2 (VStr ''default'') True
     = ((doc_lar1, doc_lar2, VNaN, VNaN), doc_heap)"
    by (simp add: find_missing_markers_def missing_marker_def doc_heap_def doc_lar1_def
          doc_lar2_def np_array1_def)
  have e: "(if label doc_lar1 ! 0 = label doc_lar2 ! 0 then label doc_lar1 ! 0
            else sorted_list_of_set (set (label doc_lar1 ! 0) \<union> set (label doc_lar2 ! 0)))
           = [''a'', ''b'', ''c'', ''dd'']"
    by code_simp
  have d3: "dtype ?b3 = DFloat" by code_simp
  have d4: "dtype ?b4 = DFloat" by code_simp
  have c: "conv_same DFloat VNaN = Inr VNaN" by (simp add: conv_same_def)
  have s: "set (label doc_lar1 ! 0) = {''a'', ''b'', ''c''}"
    "set (label doc_lar2 ! 0) = {''a'', ''b'', ''dd''}"
    by (simp_all add: doc_lar1_def doc_lar2_def)
  note t = outer_join[OF align_Inr_collapse[OF ok] a1 a2 cj n j fm]
  from t e have l3: "label (lar3_of ?R) ! 0 = [''a'', ''b'', ''c'', ''dd'']" by simp
  from t l3 have l4: "label (lar4_of ?R) ! 0 = [''a'', ''b'', ''c'', ''dd'']" by simp
  from t have "(3::nat) < length (label (lar3_of ?R) ! 0) \<and> [3] ! 0 = (3::nat) \<longrightarrow>
      (label (lar3_of ?R) ! 0 ! 3 \<notin> set (label doc_lar1 ! 0) \<longrightarrow>
         conv_same (dtype ?b3) VNaN = Inr (elems ?b3 [3]))"
    by blast
  then have "conv_same (dtype ?b3) VNaN = Inr (elems ?b3 [3])"
    by (simp add: l3 s)
  with d3 c have f3: "elems ?b3 [3] = VNaN" by simp
  from t have "(2::nat) < length (label (lar3_of ?R) ! 0) \<and> [2] ! 0 = (2::nat) \<longrightarrow>
      (label (lar3_of ?R) ! 0 ! 2 \<notin> set (label doc_lar2 ! 0) \<longrightarrow>
         conv_same (dtype ?b4) VNaN = Inr (elems ?b4 [2]))"
    by blast
  then have "conv_same (dtype ?b4) VNaN = Inr (elems ?b4 [2])"
    by (simp add: l3 s)
  with d4 c have f4: "elems ?b4 [2] = VNaN" by simp
  from ok a1 a2 cj n fm l3 l4 f3 f4 show ?thesis by blast
qed

text \<open>
  Claim C2 as stated fails where the two label lists are equal and not in ascending
  order: for \<open>['b', 'a']\<close> on both sides the output label list is \<open>['b', 'a']\<close>, which
  is not the sorted union \<open>['a', 'b']\<close>.
\<close>

theorem outer_join_equal_unsorted_labels:
  "\<not> isl (align conv_same ba_heap ba_lar1 ba_lar2 (JoinStr ''outer'') (VStr ''default'') True) \<and>
   label (lar3_of (align conv_same ba_heap ba_lar1 ba_lar2 (JoinStr ''outer'') (VStr ''default'') True)) ! 0
     \<noteq> sorted_list_of_set (set (label ba_lar1 ! 0) \<union> set (label ba_lar2 ! 0))"
  by code_simp

subsection \<open>Element types and markers through the whole loop\<close>

lemma align_axis_dtype:
  assumes step: "align_axis conv label1 label2 js miss1 miss2 v ax = Inr v'"
    and x1: "var_x1 v < length (var_heap v)"
    and x2: "var_x2 v < length (var_heap v)"
  shows "dtype (var_heap v' ! var_x1 v') = dtype (var_heap v ! var_x1 v) \<and>
         dtype (var_heap v' ! var_x2 v') = dtype (var_heap v ! var_x2 v)"
  using step x1 x2
proof (cases rule: align_axis_cases)
  case same
  then show ?thesis by simp
next
  case (inner idx1 idx2 list3)
  then show ?thesis by (simp add: nth_append)
next
  case (outer w1 w2 list3)
  then show ?thesis by (simp add: nth_append)
next
  case (left w2)
  with x1 show ?thesis by (simp add: nth_append)
next
  case (right w1)
  with x2 show ?thesis by (simp add: nth_append)
qed

lemma align_loop_dtype:
  "align_loop conv label1 label2 js miss1 miss2 axs v = Inr v' \<Longrightarrow>
   var_x1 v < length (var_heap v) \<Longrightarrow> var_x2 v < length (var_heap v) \<Longrightarrow>
   dtype (var_heap v' ! var_x1 v') = dtype (var_heap v ! var_x1 v) \<and>
   dtype (var_heap v' ! var_x2 v') = dtype (var_heap v ! var_x2 v)"
proof (induction axs arbitrary: v)
  case Nil
  then show ?case by simp
next
  case (Cons ax axs)
  from Cons.prems(1) obtain u where
    u: "align_axis conv label1 label2 js miss1 miss2 v ax = Inr u"
    and r: "align_loop conv label1 label2 js miss1 miss2 axs u = Inr v'"
    by (auto split: sum.splits)
  from align_axis_valid[OF u Cons.prems(2,3)] have
    val: "var_x1 u < length (var_heap u)" "var_x2 u < length (var_heap u)"
    by simp_all
  from Cons.IH[OF r val] align_axis_dtype[OF u Cons.prems(2,3)] show ?case by simp
qed

lemma marked_take:
  assumes "ax' \<noteq> ax"
    and "\<forall>idx. idx ! ax \<in> S \<longrightarrow> conv (dtype a) m = Inr (elems a idx)"
  shows "\<forall>idx. idx ! ax \<in> S \<longrightarrow>
           conv (dtype (take_buf a ix ax')) m = Inr (elems (take_buf a ix ax') idx)"
proof (intro allI impI)
  fix idx
  assume "idx ! ax \<in> S"
  with assms(1) have "(idx[ax' := ix ! (idx ! ax')]) ! ax \<in> S" by simp
  with assms(2) have "conv (dtype a) m = Inr (elems a (idx[ax' := ix ! (idx ! ax')]))"
    by blast
  then show "conv (dtype (take_buf a ix ax')) m = Inr (elems (take_buf a ix ax') idx)"
    by (simp add: take_buf_def)
qed

lemma marked_fill:
  assumes "conv (dtype a) m = Inr w"
    and "\<forall>idx. idx ! ax \<in> S \<longrightarrow> conv (dtype a) m = Inr (elems a idx)"
  shows "\<forall>idx. idx ! ax \<in> S \<longrightarrow>
           conv (dtype (fill_buf a ax' pos w)) m = Inr (elems (fill_buf a ax' pos w) idx)"
  using assms by (simp add: fill_buf_def)

lemma marked_fill_here:
  assumes "conv (dtype a) m = Inr w" and "S \<subseteq> set pos"
  shows "\<forall>idx. idx ! ax \<in> S \<longrightarrow>
           conv (dtype (fill_buf a ax pos w)) m = Inr (elems (fill_buf a ax pos w) idx)"
  using assms by (auto simp: fill_buf_def)

lemma align_axis_marked_keep:
  assumes step: "align_axis conv label1 label2 js miss1 miss2 v ax' = Inr v'"
    and x1: "var_x1 v < length (var_heap v)"
    and x2: "var_x2 v < length (var_heap v)"
    and ne: "ax' \<noteq> ax"
    and f1: "\<forall>idx. idx ! ax \<in> S1 \<longrightarrow>
               conv (dtype (var_heap v ! var_x1 v)) miss1 = Inr (elems (var_heap v ! var_x1 v) idx)"
    and f2: "\<forall>idx. idx ! ax \<in> S2 \<longrightarrow>
               conv (dtype (var_heap v ! var_x2 v)) miss2 = Inr (elems (var_heap v ! var_x2 v) idx)"
  shows "(\<forall>idx. idx ! ax \<in> S1 \<longrightarrow>
            conv (dtype (var_heap v' ! var_x1 v')) miss1 = Inr (elems (var_heap v' ! var_x1 v') idx)) \<and>
         (\<forall>idx. idx ! ax \<in> S2 \<longrightarrow>
            conv (dtype (var_heap v' ! var_x2 v')) miss2 = Inr (elems (var_heap v' ! var_x2 v') idx))"
  using step x1 x2
proof (cases rule: align_axis_cases)
  case same
  with f1 f2 show ?thesis by simp
next
  case (inner idx1 idx2 list3)
  with marked_take[where conv=conv and m=miss1 and ix=idx1, OF ne f1] marked_take[where conv=conv and m=miss2 and ix=idx2, OF ne f2] show ?thesis
    by (simp add: nth_append)
next
  case (outer w1 w2 list3)
  have c1: "conv (dtype (take_buf (var_heap v ! var_x1 v)
               (fst (listmap_fill (label1 ! ax') list3 0)) ax')) miss1 = Inr w1"
    using outer(4) by simp
  have c2: "conv (dtype (take_buf (var_heap v ! var_x2 v)
               (fst (listmap_fill (label2 ! ax') list3 0)) ax')) miss2 = Inr w2"
    using outer(5) by simp
  from outer(6)
    marked_fill[where conv=conv and m=miss1 and ax'=ax' and pos="snd (listmap_fill (label1 ! ax') list3 0)",
      OF c1 marked_take[where conv=conv and m=miss1, OF ne f1]]
    marked_fill[where conv=conv and m=miss2 and ax'=ax' and pos="snd (listmap_fill (label2 ! ax') list3 0)",
      OF c2 marked_take[where conv=conv and m=miss2, OF ne f2]]
  show ?thesis by (simp add: nth_append)
next
  case (left w2)
  have c2: "conv (dtype (take_buf (var_heap v ! var_x2 v)
               (fst (listmap_fill (label2 ! ax') (label1 ! ax') 0)) ax')) miss2 = Inr w2"
    using left(3) by simp
  from left(4) x1 f1
    marked_fill[where conv=conv and m=miss2 and ax'=ax'
        and pos="snd (listmap_fill (label2 ! ax') (label1 ! ax') 0)",
      OF c2 marked_take[where conv=conv and m=miss2, OF ne f2]]
  show ?thesis by (simp add: nth_append)
next
  case (right w1)
  have c1: "conv (dtype (take_buf (var_heap v ! var_x1 v)
               (fst (listmap_fill (label1 ! ax') (label2 ! ax') 0)) ax')) miss1 = Inr w1"
    using right(3) by simp
  from right(4) x2 f2
    marked_fill[where conv=conv and m=miss1 and ax'=ax'
        and pos="snd (listmap_fill (label1 ! ax') (label2 ! ax') 0)",
      OF c1 marked_take[where conv=conv and m=miss1, OF ne f1]]
  show ?thesis by (simp add: nth_append)
qed

lemma align_loop_marked_keep:
  "align_loop conv label1 label2 js miss1 miss2 axs v = Inr v' \<Longrightarrow>
   ax \<notin> set axs \<Longrightarrow>
   var_x1 v < length (var_heap v) \<Longrightarrow> var_x2 v < length (var_heap v) \<Longrightarrow>
   \<forall>idx. idx ! ax \<in> S1 \<longrightarrow>
     conv (dtype (var_heap v ! var_x1 v)) miss1 = Inr (elems (var_heap v ! var_x1 v) idx) \<Longrightarrow>
   \<forall>idx. idx ! ax \<in> S2 \<longrightarrow>
     conv (dtype (var_heap v ! var_x2 v)) miss2 = Inr (elems (var_heap v ! var_x2 v) idx) \<Longrightarrow>
   (\<forall>idx. idx ! ax \<in> S1 \<longrightarrow>
      conv (dtype (var_heap v' ! var_x1 v')) miss1 = Inr (elems (var_heap v' ! var_x1 v') idx)) \<and>
   (\<forall>idx. idx ! ax \<in> S2 \<longrightarrow>
      conv (dtype (var_heap v' ! var_x2 v')) miss2 = Inr (elems (var_heap v' ! var_x2 v') idx))"
proof (induction axs arbitrary: v)
  case Nil
  then show ?case by simp
next
  case (Cons ax' axs)
  from Cons.prems(1) obtain u where
    u: "align_axis conv label1 label2 js miss1 miss2 v ax' = Inr u"
    and r: "align_loop conv label1 label2 js miss1 miss2 axs u = Inr v'"
    by (auto split: sum.splits)
  from Cons.prems(2) have ne: "ax' \<noteq> ax" and nin: "ax \<notin> set axs" by auto
  from align_axis_valid[OF u Cons.prems(3,4)] have
    val: "var_x1 u < length (var_heap u)" "var_x2 u < length (var_heap u)"
    by simp_all
  from align_axis_marked_keep[OF u Cons.prems(3,4) ne Cons.prems(5,6)] have
    g: "\<forall>idx. idx ! ax \<in> S1 \<longrightarrow>
          conv (dtype (var_heap u ! var_x1 u)) miss1 = Inr (elems (var_heap u ! var_x1 u) idx)"
       "\<forall>idx. idx ! ax \<in> S2 \<longrightarrow>
          conv (dtype (var_heap u ! var_x2 u)) miss2 = Inr (elems (var_heap u ! var_x2 u) idx)"
    by blast+
  from Cons.IH[OF r nin val g] show ?case .
qed

lemma align_axis_marked_here:
  assumes step: "align_axis conv label1 label2 js miss1 miss2 v ax = Inr v'"
    and x1: "var_x1 v < length (var_heap v)"
    and x2: "var_x2 v < length (var_heap v)"
  shows "(\<forall>idx. idx ! ax \<in> {i. i < length (list3_of (js ! ax) (label1 ! ax) (label2 ! ax)) \<and>
                             list3_of (js ! ax) (label1 ! ax) (label2 ! ax) ! i \<notin> set (label1 ! ax)} \<longrightarrow>
            conv (dtype (var_heap v' ! var_x1 v')) miss1 = Inr (elems (var_heap v' ! var_x1 v') idx)) \<and>
         (\<forall>idx. idx ! ax \<in> {i. i < length (list3_of (js ! ax) (label1 ! ax) (label2 ! ax)) \<and>
                             list3_of (js ! ax) (label1 ! ax) (label2 ! ax) ! i \<notin> set (label2 ! ax)} \<longrightarrow>
            conv (dtype (var_heap v' ! var_x2 v')) miss2 = Inr (elems (var_heap v' ! var_x2 v') idx))"
  using step x1 x2
proof (cases rule: align_axis_cases)
  case same
  then show ?thesis by (auto simp: list3_of_def)
next
  case (inner idx1 idx2 list3)
  let ?L = "sorted_list_of_set (set (label1 ! ax) \<inter> set (label2 ! ax))"
  have "?L ! i \<in> set (label1 ! ax) \<and> ?L ! i \<in> set (label2 ! ax)" if "i < length ?L" for i
    using nth_mem[OF that] by simp
  with inner(1,2) show ?thesis by (auto simp: list3_of_def)
next
  case (outer w1 w2 list3)
  let ?L = "sorted_list_of_set (set (label1 ! ax) \<union> set (label2 ! ax))"
  let ?t1 = "take_buf (var_heap v ! var_x1 v) (fst (listmap_fill (label1 ! ax) ?L 0)) ax"
  let ?t2 = "take_buf (var_heap v ! var_x2 v) (fst (listmap_fill (label2 ! ax) ?L 0)) ax"
  have c1: "conv (dtype ?t1) miss1 = Inr w1" using outer(4) by simp
  have c2: "conv (dtype ?t2) miss2 = Inr w2" using outer(5) by simp
  have s1: "{i. i < length ?L \<and> ?L ! i \<notin> set (label1 ! ax)}
              \<subseteq> set (snd (listmap_fill (label1 ! ax) ?L 0))"
    by (simp add: listmap_fill_missing)
  have s2: "{i. i < length ?L \<and> ?L ! i \<notin> set (label2 ! ax)}
              \<subseteq> set (snd (listmap_fill (label2 ! ax) ?L 0))"
    by (simp add: listmap_fill_missing)
  from outer(1,2,3,6)
    marked_fill_here[where conv=conv and m=miss1 and ax=ax, OF c1 s1]
    marked_fill_here[where conv=conv and m=miss2 and ax=ax, OF c2 s2]
  show ?thesis by (auto simp: list3_of_def nth_append)
next
  case (left w2)
  let ?t2 = "take_buf (var_heap v ! var_x2 v)
               (fst (listmap_fill (label2 ! ax) (label1 ! ax) 0)) ax"
  have c2: "conv (dtype ?t2) miss2 = Inr w2" using left(3) by simp
  have s2: "{i. i < length (label1 ! ax) \<and> label1 ! ax ! i \<notin> set (label2 ! ax)}
              \<subseteq> set (snd (listmap_fill (label2 ! ax) (label1 ! ax) 0))"
    by (simp add: listmap_fill_missing)
  from left(1,2,4) x1
    marked_fill_here[where conv=conv and m=miss2 and ax=ax, OF c2 s2]
  show ?thesis by (auto simp: list3_of_def nth_append)
next
  case (right w1)
  let ?t1 = "take_buf (var_heap v ! var_x1 v)
               (fst (listmap_fill (label1 ! ax) (label2 ! ax) 0)) ax"
  have c1: "conv (dtype ?t1) miss1 = Inr w1" using right(3) by simp
  have s1: "{i. i < length (label2 ! ax) \<and> label2 ! ax ! i \<notin> set (label1 ! ax)}
              \<subseteq> set (snd (listmap_fill (label1 ! ax) (label2 ! ax) 0))"
    by (simp add: listmap_fill_missing)
  from right(1,2,4) x2
    marked_fill_here[where conv=conv and m=miss1 and ax=ax, OF c1 s1]
  show ?thesis by (auto simp: list3_of_def nth_append)
qed

text \<open>
  What \<open>align\<close> returns, for every join method: the element types are those of the
  larrys that leave the marker block, and wherever the label of an output position is
  one that an input lacks, that input's output holds its marker, as converted.
\<close>

lemma align_marked:
  assumes al: "align conv h lar1 lar2 join fill cast = Inr ((lar3, lar4), h')"
    and a1: "xaddr lar1 < length h" and a2: "xaddr lar2 < length h"
    and fm: "find_missing_markers h lar1 lar2 fill cast = ((lar1', lar2', miss1, miss2), h1)"
  shows "dtype (h' ! xaddr lar3) = dtype (h1 ! xaddr lar1') \<and>
         dtype (h' ! xaddr lar4) = dtype (h1 ! xaddr lar2') \<and>
         (\<forall>ax i idx. ax < larry_ndim h lar2 \<and> i < length (label lar3 ! ax) \<and> idx ! ax = i \<longrightarrow>
            (label lar3 ! ax ! i \<notin> set (label lar1 ! ax) \<longrightarrow>
               conv (dtype (h' ! xaddr lar3)) miss1 = Inr (elems (h' ! xaddr lar3) idx)) \<and>
            (label lar3 ! ax ! i \<notin> set (label lar2 ! ax) \<longrightarrow>
               conv (dtype (h' ! xaddr lar4)) miss2 = Inr (elems (h' ! xaddr lar4) idx)))"
proof -
  let ?n = "larry_ndim h lar2"
  let ?v0 = "\<lparr>var_label = [], var_x1 = xaddr lar1', var_x2 = xaddr lar2',
              var_x1isview = True, var_x2isview = True, var_heap = h1\<rparr>"
  from al obtain js la lb ma mb hh v where
    cj: "check_join join ?n = Inr js"
    and fm0: "find_missing_markers h lar1 lar2 fill cast = ((la, lb, ma, mb), hh)"
    and lp0: "align_loop conv (label la) (label lb) js ma mb [0..<?n]
       \<lparr>var_label = [], var_x1 = xaddr la, var_x2 = xaddr lb,
        var_x1isview = True, var_x2isview = True, var_heap = hh\<rparr> = Inr v"
    and l3: "lar3 = \<lparr>xaddr = (if var_x1isview v then length (var_heap v) else var_x1 v),
                     label = var_label v\<rparr>"
    and l4: "lar4 = \<lparr>xaddr = (if var_x2isview v
                       then length (var_heap v) + (if var_x1isview v then 1 else 0)
                       else var_x2 v),
             label = var_label v\<rparr>"
    and h': "h' = var_heap v @ (if var_x1isview v then [var_heap v ! var_x1 v] else [])
                    @ (if var_x2isview v
                       then [(var_heap v @ (if var_x1isview v then [var_heap v ! var_x1 v] else [])) ! var_x2 v]
                       else [])"
    by (rule align_elim)
  from fm fm0 have eq: "la = lar1'" "lb = lar2'" "ma = miss1" "mb = miss2" "hh = h1"
    by simp_all
  note labs = find_missing_markers_label[OF fm]
  from lp0 eq labs have lp:
    "align_loop conv (label lar1) (label lar2) js miss1 miss2 [0..<?n] ?v0 = Inr v"
    by simp
  note fr = find_missing_markers_frame[OF fm a1 a2]
  from fr have v0: "var_x1 ?v0 < length (var_heap ?v0)" "var_x2 ?v0 < length (var_heap ?v0)"
    by simp_all
  from align_loop_frame[OF lp, of "length h1"] fr have
    vv: "var_x1 v < length (var_heap v)" "var_x2 v < length (var_heap v)"
    by simp_all
  from vv have o3: "h' ! xaddr lar3 = var_heap v ! var_x1 v"
    by (simp add: l3 h' nth_append)
  from vv have o4: "h' ! xaddr lar4 = var_heap v ! var_x2 v"
    by (simp add: l4 h' nth_append)
  from align_loop_dtype[OF lp v0] o3 o4 have
    dt: "dtype (h' ! xaddr lar3) = dtype (h1 ! xaddr lar1')"
        "dtype (h' ! xaddr lar4) = dtype (h1 ! xaddr lar2')"
    by simp_all
  have fill: "(label lar3 ! ax ! (idx ! ax) \<notin> set (label lar1 ! ax) \<longrightarrow>
               conv (dtype (h' ! xaddr lar3)) miss1 = Inr (elems (h' ! xaddr lar3) idx)) \<and>
            (label lar3 ! ax ! (idx ! ax) \<notin> set (label lar2 ! ax) \<longrightarrow>
               conv (dtype (h' ! xaddr lar4)) miss2 = Inr (elems (h' ! xaddr lar4) idx))"
    if ax: "ax < ?n" and i: "idx ! ax < length (label lar3 ! ax)" for ax idx
  proof -
    let ?L = "list3_of (js ! ax) (label lar1 ! ax) (label lar2 ! ax)"
    from align_labels[OF al cj ax] have L: "label lar3 ! ax = ?L" by simp
    from lp upt_split[OF ax] obtain va vb where
      pa: "align_loop conv (label lar1) (label lar2) js miss1 miss2 [0..<ax] ?v0 = Inr va"
      and pb: "align_axis conv (label lar1) (label lar2) js miss1 miss2 va ax = Inr vb"
      and pc: "align_loop conv (label lar1) (label lar2) js miss1 miss2 [Suc ax..<?n] vb = Inr v"
      by (auto simp: align_loop_append split: sum.splits)
    from align_loop_frame[OF pa, of "length h1"] fr have
      va: "var_x1 va < length (var_heap va)" "var_x2 va < length (var_heap va)"
      by simp_all
    from align_axis_valid[OF pb va] have
      vb: "var_x1 vb < length (var_heap vb)" "var_x2 vb < length (var_heap vb)"
      by simp_all
    from align_axis_marked_here[OF pb va] have
      f1: "\<forall>idx. idx ! ax \<in> {i. i < length ?L \<and> ?L ! i \<notin> set (label lar1 ! ax)} \<longrightarrow>
             conv (dtype (var_heap vb ! var_x1 vb)) miss1 = Inr (elems (var_heap vb ! var_x1 vb) idx)"
      and f2: "\<forall>idx. idx ! ax \<in> {i. i < length ?L \<and> ?L ! i \<notin> set (label lar2 ! ax)} \<longrightarrow>
             conv (dtype (var_heap vb ! var_x2 vb)) miss2 = Inr (elems (var_heap vb ! var_x2 vb) idx)"
      by blast+
    have nin: "ax \<notin> set [Suc ax..<?n]" by simp
    from align_loop_marked_keep[OF pc nin vb f1 f2] have
      g1: "\<forall>idx. idx ! ax \<in> {i. i < length ?L \<and> ?L ! i \<notin> set (label lar1 ! ax)} \<longrightarrow>
             conv (dtype (var_heap v ! var_x1 v)) miss1 = Inr (elems (var_heap v ! var_x1 v) idx)"
      and g2: "\<forall>idx. idx ! ax \<in> {i. i < length ?L \<and> ?L ! i \<notin> set (label lar2 ! ax)} \<longrightarrow>
             conv (dtype (var_heap v ! var_x2 v)) miss2 = Inr (elems (var_heap v ! var_x2 v) idx)"
      by blast+
    from g1 g2 i show ?thesis unfolding L o3 o4 by simp
  qed
  from dt fill show ?thesis by blast
qed

subsection \<open>The fill value and the missing markers\<close>

text \<open>
  Claim C7. A fill value other than the string \<open>'default'\<close> is the missing marker of
  both inputs as it stands: the block that finds the markers returns the two larrys
  and the store unchanged (no \<open>missing_marker\<close>, no \<open>astype\<close>), and \<open>align\<close> does the
  same whatever \<open>cast\<close> is. When \<open>align\<close> returns, each output buffer has the element
  type of its input, and wherever the label of an output position is one that an
  input lacks, that input's output holds the fill value itself, as the assignment
  converts it to the input's element type.
\<close>

theorem explicit_fill_verbatim:
  assumes "fill \<noteq> VStr ''default''"
  shows "find_missing_markers h lar1 lar2 fill cast = ((lar1, lar2, fill, fill), h) \<and>
         align conv h lar1 lar2 join fill cast = align conv h lar1 lar2 join fill (\<not> cast) \<and>
         (\<forall>lar3 lar4 h'.
            align conv h lar1 lar2 join fill cast = Inr ((lar3, lar4), h') \<and>
            xaddr lar1 < length h \<and> xaddr lar2 < length h \<longrightarrow>
            dtype (h' ! xaddr lar3) = dtype (h ! xaddr lar1) \<and>
            dtype (h' ! xaddr lar4) = dtype (h ! xaddr lar2) \<and>
            (\<forall>ax i idx. ax < larry_ndim h lar2 \<and> i < length (label lar3 ! ax) \<and> idx ! ax = i \<longrightarrow>
               (label lar3 ! ax ! i \<notin> set (label lar1 ! ax) \<longrightarrow>
                  conv (dtype (h ! xaddr lar1)) fill = Inr (elems (h' ! xaddr lar3) idx)) \<and>
               (label lar3 ! ax ! i \<notin> set (label lar2 ! ax) \<longrightarrow>
                  conv (dtype (h ! xaddr lar2)) fill = Inr (elems (h' ! xaddr lar4) idx))))"
proof -
  have fm: "find_missing_markers h lar1 lar2 fill c = ((lar1, lar2, fill, fill), h)" for c
    using assms by (simp add: find_missing_markers_def)
  have eq: "align conv h lar1 lar2 join fill cast = align conv h lar1 lar2 join fill (\<not> cast)"
    unfolding align_def fm by simp
  have out: "dtype (h' ! xaddr lar3) = dtype (h ! xaddr lar1) \<and>
            dtype (h' ! xaddr lar4) = dtype (h ! xaddr lar2) \<and>
            (\<forall>ax i idx. ax < larry_ndim h lar2 \<and> i < length (label lar3 ! ax) \<and> idx ! ax = i \<longrightarrow>
               (label lar3 ! ax ! i \<notin> set (label lar1 ! ax) \<longrightarrow>
                  conv (dtype (h ! xaddr lar1)) fill = Inr (elems (h' ! xaddr lar3) idx)) \<and>
               (label lar3 ! ax ! i \<notin> set (label lar2 ! ax) \<longrightarrow>
                  conv (dtype (h ! xaddr lar2)) fill = Inr (elems (h' ! xaddr lar4) idx)))"
    if al: "align conv h lar1 lar2 join fill cast = Inr ((lar3, lar4), h')"
      and a1: "xaddr lar1 < length h" and a2: "xaddr lar2 < length h" for lar3 lar4 h'
  proof -
    note m = align_marked[OF al a1 a2 fm]
    from m have d: "dtype (h' ! xaddr lar3) = dtype (h ! xaddr lar1)"
      "dtype (h' ! xaddr lar4) = dtype (h ! xaddr lar2)"
      by simp_all
    from m show ?thesis unfolding d by blast
  qed
  from fm eq out show ?thesis by blast
qed

text \<open>
  Two integer larrys, an outer join, fill value \<open>0\<close> and \<open>cast\<close> set: the outputs stay
  integer buffers, the first holds \<open>0\<close> at \<open>'c'\<close> and the second at \<open>'a'\<close>, and the
  call with \<open>cast=False\<close> returns the same.
\<close>

theorem explicit_fill_verbatim_witness:
  "VInt 0 \<noteq> VStr ''default'' \<and>
   \<not> isl (align conv_same ints_heap ints_lar1 ints_lar2 (JoinStr ''outer'') (VInt 0) True) \<and>
   xaddr ints_lar1 < length ints_heap \<and> xaddr ints_lar2 < length ints_heap \<and>
   find_missing_markers ints_heap ints_lar1 ints_lar2 (VInt 0) True
     = ((ints_lar1, ints_lar2, VInt 0, VInt 0), ints_heap) \<and>
   align conv_same ints_heap ints_lar1 ints_lar2 (JoinStr ''outer'') (VInt 0) True
     = align conv_same ints_heap ints_lar1 ints_lar2 (JoinStr ''outer'') (VInt 0) False \<and>
   label (lar3_of (align conv_same ints_heap ints_lar1 ints_lar2 (JoinStr ''outer'') (VInt 0) True)) ! 0
     = [''a'', ''b'', ''c''] \<and>
   dtype (heap_of (align conv_same ints_heap ints_lar1 ints_lar2 (JoinStr ''outer'') (VInt 0) True)
          ! xaddr (lar3_of (align conv_same ints_heap ints_lar1 ints_lar2 (JoinStr ''outer'') (VInt 0) True)))
     = DInt \<and>
   dtype (heap_of (align conv_same ints_heap ints_lar1 ints_lar2 (JoinStr ''outer'') (VInt 0) True)
          ! xaddr (lar4_of (align conv_same ints_heap ints_lar1 ints_lar2 (JoinStr ''outer'') (VInt 0) True)))
     = DInt \<and>
   elems (heap_of (align conv_same ints_heap ints_lar1 ints_lar2 (JoinStr ''outer'') (VInt 0) True)
          ! xaddr (lar3_of (align conv_same ints_heap ints_lar1 ints_lar2 (JoinStr ''outer'') (VInt 0) True)))
     [2] = VInt 0 \<and>
   elems (heap_of (align conv_same ints_heap ints_lar1 ints_lar2 (JoinStr ''outer'') (VInt 0) True)
          ! xaddr (lar4_of (align conv_same ints_heap ints_lar1 ints_lar2 (JoinStr ''outer'') (VInt 0) True)))
     [0] = VInt 0"
proof -
  let ?R = "align conv_same ints_heap ints_lar1 ints_lar2 (JoinStr ''outer'') (VInt 0) True"
  let ?b3 = "heap_of ?R ! xaddr (lar3_of ?R)" and ?b4 = "heap_of ?R ! xaddr (lar4_of ?R)"
  have f: "VInt 0 \<noteq> VStr ''default''" by simp
  have ok: "\<not> isl ?R" by code_simp
  have a1: "xaddr ints_lar1 < length ints_heap" by code_simp
  have a2: "xaddr ints_lar2 < length ints_heap" by code_simp
  have n: "0 < larry_ndim ints_heap ints_lar2" by code_simp
  have l3: "label (lar3_of ?R) ! 0 = [''a'', ''b'', ''c'']" by code_simp
  have d: "dtype (ints_heap ! xaddr ints_lar1) = DInt" "dtype (ints_heap ! xaddr ints_lar2) = DInt"
    by (simp_all add: ints_heap_def ints_lar1_def ints_lar2_def np_array1_def)
  have s: "set (label ints_lar1 ! 0) = {''a'', ''b''}" "set (label ints_lar2 ! 0) = {''b'', ''c''}"
    by (simp_all add: ints_lar1_def ints_lar2_def)
  have c: "conv_same DInt (VInt 0) = Inr (VInt 0)" by (simp add: conv_same_def)
  note t = explicit_fill_verbatim[OF f, of ints_heap ints_lar1 ints_lar2 True conv_same "JoinStr ''outer''"]
  from t have t1: "find_missing_markers ints_heap ints_lar1 ints_lar2 (VInt 0) True
     = ((ints_lar1, ints_lar2, VInt 0, VInt 0), ints_heap)"
    by blast
  from t have t2: "?R = align conv_same ints_heap ints_lar1 ints_lar2 (JoinStr ''outer'') (VInt 0) False"
    by simp
  from t align_Inr_collapse[OF ok] a1 a2 have
    t3: "dtype ?b3 = dtype (ints_heap ! xaddr ints_lar1)"
    and t4: "dtype ?b4 = dtype (ints_heap ! xaddr ints_lar2)"
    and t5: "\<forall>ax i idx. ax < larry_ndim ints_heap ints_lar2 \<and> i < length (label (lar3_of ?R) ! ax) \<and> idx ! ax = i \<longrightarrow>
               (label (lar3_of ?R) ! ax ! i \<notin> set (label ints_lar1 ! ax) \<longrightarrow>
                  conv_same (dtype (ints_heap ! xaddr ints_lar1)) (VInt 0) = Inr (elems ?b3 idx)) \<and>
               (label (lar3_of ?R) ! ax ! i \<notin> set (label ints_lar2 ! ax) \<longrightarrow>
                  conv_same (dtype (ints_heap ! xaddr ints_lar2)) (VInt 0) = Inr (elems ?b4 idx))"
    by blast+
  from t5 n have "(2::nat) < length (label (lar3_of ?R) ! 0) \<and> [2] ! 0 = (2::nat) \<longrightarrow>
      (label (lar3_of ?R) ! 0 ! 2 \<notin> set (label ints_lar1 ! 0) \<longrightarrow>
         conv_same (dtype (ints_heap ! xaddr ints_lar1)) (VInt 0) = Inr (elems ?b3 [2]))"
    by blast
  then have e3: "elems ?b3 [2] = VInt 0" by (simp add: l3 s d c)
  from t5 n have "(0::nat) < length (label (lar3_of ?R) ! 0) \<and> [0] ! 0 = (0::nat) \<longrightarrow>
      (label (lar3_of ?R) ! 0 ! 0 \<notin> set (label ints_lar2 ! 0) \<longrightarrow>
         conv_same (dtype (ints_heap ! xaddr ints_lar2)) (VInt 0) = Inr (elems ?b4 [0]))"
    by blast
  then have e4: "elems ?b4 [0] = VInt 0" by (simp add: l3 s d c)
  from t3 t4 d have d3: "dtype ?b3 = DInt" and d4: "dtype ?b4 = DInt" by simp_all
  from f ok a1 a2 t1 t2 l3 d3 d4 e3 e4 show ?thesis by blast
qed





subsection \<open>Left and right joins: the array that is gathered\<close>







end
